theory Spec2Isabelle
  imports Main "HOL-Library.Sublist"
begin

section \<open>Strings\<close>

text \<open>
  JavaScript strings are modelled as \<open>string\<close>: a character of the model is a code
  unit below 256, that is a character of Latin-1 (\<open>CHR 0xA0\<close> is the no-break space
  U+00A0), and text with other code units is outside the model. Within this range the
  string operations are those of ECMAScript. \<open>toLowerCase\<close> maps the letters \<open>A\<close> to
  \<open>Z\<close> and the upper-case letters U+00C0 to U+00DE (without the sign U+00D7) to the
  letters 32 places on, and keeps every other character. \<open>trim\<close> removes white space and
  line terminators at both ends: tab, line feed, vertical tab, form feed, carriage
  return, space and no-break space. \<open>includes\<close> is the test for a contiguous substring.
\<close>

definition upper_chars :: string where
  "upper_chars =
     ''ABCDEFGHIJKLMNOPQRSTUVWXYZ'' @
     [CHR 0xC0, CHR 0xC1, CHR 0xC2, CHR 0xC3, CHR 0xC4, CHR 0xC5, CHR 0xC6, CHR 0xC7,
      CHR 0xC8, CHR 0xC9, CHR 0xCA, CHR 0xCB, CHR 0xCC, CHR 0xCD, CHR 0xCE, CHR 0xCF,
      CHR 0xD0, CHR 0xD1, CHR 0xD2, CHR 0xD3, CHR 0xD4, CHR 0xD5, CHR 0xD6, CHR 0xD8,
      CHR 0xD9, CHR 0xDA, CHR 0xDB, CHR 0xDC, CHR 0xDD, CHR 0xDE]"

definition lower_chars :: string where
  "lower_chars =
     ''abcdefghijklmnopqrstuvwxyz'' @
     [CHR 0xE0, CHR 0xE1, CHR 0xE2, CHR 0xE3, CHR 0xE4, CHR 0xE5, CHR 0xE6, CHR 0xE7,
      CHR 0xE8, CHR 0xE9, CHR 0xEA, CHR 0xEB, CHR 0xEC, CHR 0xED, CHR 0xEE, CHR 0xEF,
      CHR 0xF0, CHR 0xF1, CHR 0xF2, CHR 0xF3, CHR 0xF4, CHR 0xF5, CHR 0xF6, CHR 0xF8,
      CHR 0xF9, CHR 0xFA, CHR 0xFB, CHR 0xFC, CHR 0xFD, CHR 0xFE]"

definition lower_char :: "char \<Rightarrow> char" where
  "lower_char c =
     (case map_of (zip upper_chars lower_chars) c of
        Some d \<Rightarrow> d
      | None \<Rightarrow> c)"

definition toLowerCase :: "string \<Rightarrow> string" where
  "toLowerCase s = map lower_char s"

definition str_includes :: "string \<Rightarrow> string \<Rightarrow> bool" where
  "str_includes s t = sublist t s"

definition is_space :: "char \<Rightarrow> bool" where
  "is_space c =
     (c \<in> set [CHR 0x09, CHR 0x0A, CHR 0x0B, CHR 0x0C, CHR 0x0D, CHR '' '', CHR 0xA0])"

definition trim :: "string \<Rightarrow> string" where
  "trim s = rev (dropWhile is_space (rev (dropWhile is_space s)))"

section \<open>Error payloads and their classification\<close>

text \<open>
  A thrown value is seen by the program through two observations only: its serialisation
  \<open>JSON.stringify(error)\<close> and the number at \<open>error.error.code\<close> (absent when one of the
  two property reads yields \<open>undefined\<close>). The payload is the pair of both.
\<close>

record api_error =
  stringified :: string
  error_code :: "int option"

datatype error_type = VIDEO_DAILY_LIMIT | HIGH_DEMAND | GENERAL_QUOTA | OTHER

definition analyzeApiError :: "api_error \<Rightarrow> error_type" where
  "analyzeApiError error =
     (let errorString = toLowerCase (stringified error) in
      if str_includes errorString ''limited free generations per day'' then VIDEO_DAILY_LIMIT
      else if str_includes errorString ''quota'' \<or> str_includes errorString ''resource_exhausted''
              \<or> error_code error = Some 429 then GENERAL_QUOTA
      else if str_includes errorString ''high demand'' \<or> str_includes errorString ''at capacity''
      then HIGH_DEMAND
      else OTHER)"

text \<open>An \<open>Error\<close> object made by \<open>new Error(msg)\<close>, or a \<open>TypeError\<close> of the runtime: its
  own properties are not enumerable, so it serialises to the empty object.\<close>

definition js_Error :: api_error where
  "js_Error = \<lparr>stringified = ''{}'', error_code = None\<rparr>"

section \<open>Data model\<close>

datatype media_kind = Image | Video

text \<open>The \<open>id\<close> of a history item is \<open>history-\<close> followed by the time of its creation; the
  model keeps the time.\<close>

record HistoryItem =
  item_id :: int
  item_type :: media_kind
  dataUrl :: string
  prompt :: string

record uploaded_image =
  data :: string
  mimeType :: string

datatype display = DisplayNone | DisplayBlock | DisplayFlex | DisplayInlineBlock

record operation =
  op_done :: bool
  op_error :: "api_error option"
  video_uri :: "string option"

text \<open>The requests sent to the remote service, in the order they are issued.\<close>

datatype request =
    GenerateContentTest string
  | GenerateContentAnalysis string uploaded_image
  | GenerateContentPrompts
  | GenerateImages string string nat string string
  | GenerateVideos string string nat "uploaded_image option"
  | GetVideosOperation operation
  | Fetch string

text \<open>
  \<open>localStorage\<close> holds two entries: the key under \<open>gemini-api-key\<close> and the history
  under \<open>ai-veo-history\<close>. \<open>JSON.stringify\<close> and \<open>JSON.parse\<close> on the history are taken
  as inverse to each other, so the stored value is the list itself. Writes succeed.
\<close>

record local_storage =
  stored_api_key :: "string option"
  stored_history :: "HistoryItem list option"

text \<open>
  The state is the module's variables, the properties of the DOM elements that the
  program reads or writes, \<open>localStorage\<close>, the log of requests and the clock read by
  \<open>Date.now()\<close>. The client \<open>ai\<close> is \<open>None\<close> while the variable is \<open>undefined\<close> and
  otherwise the key it was made with. What the program only draws (the history grid, the
  countdown text, the image preview) is left out.
\<close>

record app_state =
  isGenerating :: bool
  isVideoDailyLimitReached :: bool
  countdownInterval :: "nat option"
  uploadedImage :: "uploaded_image option"
  history :: "HistoryItem list"
  apiKey :: "string option"
  examplePrompts :: "string list"
  isGeneratingNewPrompts :: bool
  ai :: "string option"
  promptInput_value :: string
  promptInput_disabled :: bool
  promptInput_placeholder :: string
  generateButton_disabled :: bool
  generateButton_textContent :: string
  refreshButton_disabled :: bool
  uploadButton_disabled :: bool
  imageModeRadio_disabled :: bool
  videoModeRadio_disabled :: bool
  videoModeRadio_checked :: bool
  examplePromptsList_disabled :: bool
  examplePromptsList_items :: "string list"
  statusEl_textContent :: string
  outputPlaceholder_display :: display
  imageOutput_display :: display
  imageOutput_src :: string
  videoPlayer_display :: display
  videoPlayer_src :: string
  downloadButton_display :: display
  downloadButton_href :: string
  queueStatusContainer_display :: display
  apiKeyModalOverlay_visible :: bool
  apiKeyInput_value :: string
  saveApiKeyButton_disabled :: bool
  saveApiKeyButton_textContent :: string
  localStorage :: local_storage
  requests :: "request list"
  now :: int

text \<open>
  What the remote service answers during one generation: a reply is \<open>Inl\<close> the value the
  awaited call rejects with, or \<open>Inr\<close> its result. \<open>images_reply\<close> lists the
  \<open>imageBytes\<close> of \<open>response.generatedImages\<close>; \<open>polls env i\<close> is the reply to the
  \<open>i\<close>-th status poll together with the time that passed beyond the 10 seconds of the
  timer; \<open>latency\<close> is the time every other awaited call takes.
\<close>

record poll_reply =
  poll_delay :: nat
  poll_result :: "api_error + operation"

record video_blob =
  object_url :: string
  base64_url :: string

record gen_env =
  analysis_reply :: "api_error + string"
  images_reply :: "api_error + string list"
  videos_reply :: "api_error + operation"
  polls :: "nat \<Rightarrow> poll_reply"
  fetch_reply :: "api_error + video_blob"
  latency :: nat

text \<open>A function that can throw returns the state it reached, and the thrown value.\<close>

datatype outcome = Returned app_state | Thrown api_error app_state

section \<open>User interface state\<close>

definition setStatus :: "string \<Rightarrow> app_state \<Rightarrow> app_state" where
  "setStatus text s = s\<lparr>statusEl_textContent := text\<rparr>"

definition promptIsEmpty :: "app_state \<Rightarrow> bool" where
  "promptIsEmpty s = (length (trim (promptInput_value s)) = 0)"

definition updateUIState :: "app_state \<Rightarrow> app_state" where
  "updateUIState s =
     (let s1 = s\<lparr>generateButton_disabled := isGenerating s \<or> promptIsEmpty s,
                  imageModeRadio_disabled := isGenerating s,
                  videoModeRadio_disabled := isGenerating s,
                  uploadButton_disabled := isGenerating s,
                  examplePromptsList_disabled := isGenerating s,
                  promptInput_disabled := isGenerating s,
                  refreshButton_disabled := isGenerating s \<or> isGeneratingNewPrompts s\<rparr>;
          s2 = (if isGenerating s \<and> ai s \<noteq> None
                then s1\<lparr>generateButton_textContent := ''Generating...'',
                        generateButton_disabled := True\<rparr>
                else if ai s = None
                then s1\<lparr>generateButton_textContent := ''Setup Required''\<rparr>
                else if videoModeRadio_checked s \<and> isVideoDailyLimitReached s
                then setStatus ''Daily video limit reached. Try again tomorrow.''
                       (s1\<lparr>generateButton_textContent := ''Generate'',
                           generateButton_disabled := True\<rparr>)
                else s1\<lparr>generateButton_textContent := ''Generate''\<rparr>)
      in s2\<lparr>promptInput_placeholder :=
               (if uploadedImage s \<noteq> None
                then (if videoModeRadio_checked s
                      then ''Describe how you want to animate this image...''
                      else ''Describe how to use this image as inspiration...'')
                else ''Describe your vision in detail...'')\<rparr>)"

text \<open>\<open>if (countdownInterval)\<close> tests the handle for truth: \<open>null\<close> and \<open>0\<close> fail it.\<close>

definition resetUI :: "app_state \<Rightarrow> app_state" where
  "resetUI s =
     updateUIState
       (s\<lparr>isGenerating := False,
          queueStatusContainer_display := DisplayNone,
          countdownInterval :=
            (case countdownInterval s of
               None \<Rightarrow> None
             | Some h \<Rightarrow> if h \<noteq> 0 then None else Some h)\<rparr>)"

text \<open>The handle that \<open>setInterval\<close> returns is a positive number; the model takes 1.\<close>

definition startCountdown :: "app_state \<Rightarrow> app_state" where
  "startCountdown s =
     s\<lparr>outputPlaceholder_display := DisplayNone,
       queueStatusContainer_display := DisplayFlex,
       countdownInterval := Some 1\<rparr>"

definition handleModeChange :: "app_state \<Rightarrow> app_state" where
  "handleModeChange s = updateUIState s"

definition populateExamplePrompts :: "app_state \<Rightarrow> app_state" where
  "populateExamplePrompts s = s\<lparr>examplePromptsList_items := examplePrompts s\<rparr>"

section \<open>History\<close>

definition loadHistory :: "app_state \<Rightarrow> app_state" where
  "loadHistory s =
     (case stored_history (localStorage s) of
        Some savedHistory \<Rightarrow> s\<lparr>history := savedHistory\<rparr>
      | None \<Rightarrow> s)"

definition saveHistory :: "app_state \<Rightarrow> app_state" where
  "saveHistory s = s\<lparr>localStorage := (localStorage s)\<lparr>stored_history := Some (history s)\<rparr>\<rparr>"

text \<open>\<open>unshift\<close> puts the new item in front; \<open>pop\<close> removes the last element.\<close>

definition addToHistory :: "media_kind \<Rightarrow> string \<Rightarrow> string \<Rightarrow> app_state \<Rightarrow> app_state" where
  "addToHistory type url text s =
     (let newItem = \<lparr>item_id = now s, item_type = type, dataUrl = url, prompt = text\<rparr>;
          h1 = newItem # history s;
          h2 = (if length h1 > 20 then butlast h1 else h1)
      in saveHistory (s\<lparr>history := h2\<rparr>))"

section \<open>Key validation\<close>

text \<open>\<open>probe\<close> is the reply to the test request made with the candidate key.\<close>

definition initializeAppWithKey :: "api_error + unit \<Rightarrow> string \<Rightarrow> app_state \<Rightarrow> app_state" where
  "initializeAppWithKey probe key s =
     (let s1 = s\<lparr>apiKey := Some key, requests := requests s @ [GenerateContentTest key]\<rparr>
      in case probe of
           Inr _ \<Rightarrow>
             (let s2 = s1\<lparr>ai := Some key,
                          localStorage := (localStorage s1)\<lparr>stored_api_key := Some key\<rparr>,
                          isGenerating := False\<rparr>;
                  s3 = updateUIState (handleModeChange (populateExamplePrompts s2))
              in setStatus [] (s3\<lparr>apiKeyModalOverlay_visible := False\<rparr>))
         | Inl e \<Rightarrow>
             (let s2 = setStatus ''API Key is invalid or has insufficient quota. Please try again.'' s1;
                  s3 = updateUIState (s2\<lparr>isGenerating := True\<rparr>)
              in s3\<lparr>localStorage := (localStorage s3)\<lparr>stored_api_key := None\<rparr>,
                    apiKey := None,
                    apiKeyInput_value := [],
                    apiKeyModalOverlay_visible := True\<rparr>))"

definition handleSaveApiKey :: "api_error + unit \<Rightarrow> app_state \<Rightarrow> app_state" where
  "handleSaveApiKey probe s =
     (let key = trim (apiKeyInput_value s)
      in if key = [] then s
         else
           (let s1 = s\<lparr>saveApiKeyButton_disabled := True,
                        saveApiKeyButton_textContent := ''Verifying...''\<rparr>;
                s2 = initializeAppWithKey probe key s1
            in if ai s2 = None
               then s2\<lparr>saveApiKeyButton_disabled := False,
                       saveApiKeyButton_textContent := ''Save and Start''\<rparr>
               else s2))"

text \<open>\<open>if (storedApiKey)\<close> fails for \<open>null\<close> and for the empty string.\<close>

definition init :: "api_error + unit \<Rightarrow> app_state \<Rightarrow> app_state" where
  "init probe s =
     (let s1 = loadHistory (updateUIState (s\<lparr>isGenerating := True\<rparr>))
      in case stored_api_key (localStorage s1) of
           None \<Rightarrow> s1\<lparr>apiKeyModalOverlay_visible := True\<rparr>
         | Some storedApiKey \<Rightarrow>
             if storedApiKey = [] then s1\<lparr>apiKeyModalOverlay_visible := True\<rparr>
             else initializeAppWithKey probe storedApiKey s1)"

text \<open>The values the module's variables have when the script is loaded, on a page whose
  elements and \<open>localStorage\<close> are those of \<open>s\<close>.\<close>

definition module_load :: "app_state \<Rightarrow> app_state" where
  "module_load s =
     s\<lparr>isGenerating := False,
       isVideoDailyLimitReached := False,
       countdownInterval := None,
       uploadedImage := None,
       history := [],
       apiKey := None,
       examplePrompts :=
         [''A cinematic shot of a an astronaut riding a horse on Mars'',
          ''A delicious-looking cheeseburger in the style of a claymation'',
          ''A high-fashion model wearing a dress made of liquid chrome'',
          ''A logo for a coffee shop called '' @ [CHR 0x22] @ ''The Starry Bean'' @ [CHR 0x22],
          ''A photorealistic image of a cat wearing a tiny wizard hat''],
       isGeneratingNewPrompts := False,
       ai := None\<rparr>"

section \<open>Generation\<close>

text \<open>An awaited request is logged, and the clock moves on by the time it takes.\<close>

definition send :: "request \<Rightarrow> nat \<Rightarrow> app_state \<Rightarrow> app_state" where
  "send r d s = s\<lparr>requests := requests s @ [r], now := now s + int d\<rparr>"

definition analysisPrompt :: "string \<Rightarrow> string" where
  "analysisPrompt originalUserPrompt =
     ''Analyze the provided image and the user's prompt. Create a new, highly detailed and creative prompt for an AI image generator that combines the style, subjects, colors, and composition of the image with the user's instructions. The new prompt should be a standalone instruction, not a conversation. User's prompt: ''
     @ [CHR 0x22] @ originalUserPrompt @ [CHR 0x22]"

text \<open>
  The second half of \<open>generateImage\<close>, from \<open>setStatus('Generating image...')\<close> on. Reading
  \<open>response.generatedImages[0].image.imageBytes\<close> of a response without images throws a
  \<open>TypeError\<close>.
\<close>

definition requestImage :: "gen_env \<Rightarrow> string \<Rightarrow> string \<Rightarrow> app_state \<Rightarrow> outcome" where
  "requestImage env finalPrompt originalUserPrompt s =
     (let s1 = setStatus ''Generating image...'' s;
          s2 = send (GenerateImages ''imagen-3.0-generate-002'' finalPrompt 1 ''image/jpeg'' ''16:9'')
                 (latency env) s1
      in case images_reply env of
           Inl e \<Rightarrow> Thrown e s2
         | Inr [] \<Rightarrow> Thrown js_Error s2
         | Inr (imageData # _) \<Rightarrow>
             (let url = ''data:image/jpeg;base64,'' @ imageData;
                  s3 = s2\<lparr>imageOutput_src := url,
                           imageOutput_display := DisplayBlock,
                           downloadButton_href := url,
                           downloadButton_display := DisplayInlineBlock\<rparr>
              in Returned (setStatus ''Image generated successfully.''
                             (resetUI (addToHistory Image url originalUserPrompt s3)))))"

definition generateImage :: "gen_env \<Rightarrow> app_state \<Rightarrow> outcome" where
  "generateImage env s =
     (let originalUserPrompt = promptInput_value s
      in case uploadedImage s of
           None \<Rightarrow> requestImage env originalUserPrompt originalUserPrompt s
         | Some img \<Rightarrow>
             (let s1 = setStatus ''Analyzing image for inspiration...'' s;
                  s2 = send (GenerateContentAnalysis (analysisPrompt originalUserPrompt) img)
                         (latency env) s1
              in case analysis_reply env of
                   Inr text \<Rightarrow> requestImage env text originalUserPrompt s2
                 | Inl error \<Rightarrow>
                     if analyzeApiError error = GENERAL_QUOTA then Thrown error s2
                     else requestImage env originalUserPrompt originalUserPrompt
                            (setStatus ''Image analysis failed. Using the original prompt instead.'' s2)))"

definition TIMEOUT_MS :: int where
  "TIMEOUT_MS = 60000"

text \<open>One round of the polling loop: the timer of 10 seconds, then the status request.\<close>

definition poll_step :: "gen_env \<Rightarrow> nat \<Rightarrow> operation \<Rightarrow> app_state \<Rightarrow> app_state" where
  "poll_step env i operation s =
     send (GetVideosOperation operation) (10000 + poll_delay (polls env i)) s"

text \<open>
  The \<open>while\<close> loop of \<open>generateVideo\<close>. It returns the error that left the loop, if one
  did, the last operation seen, and the state.
\<close>

function pollLoop ::
  "gen_env \<Rightarrow> int \<Rightarrow> nat \<Rightarrow> operation \<Rightarrow> app_state \<Rightarrow> api_error option \<times> operation \<times> app_state"
where
  "pollLoop env startTime i operation s =
     (if \<not> op_done operation \<and> now s - startTime < TIMEOUT_MS then
        (case poll_result (polls env i) of
           Inr operation' \<Rightarrow> pollLoop env startTime (Suc i) operation' (poll_step env i operation s)
         | Inl e \<Rightarrow>
             if analyzeApiError e = GENERAL_QUOTA
             then (Some e, operation, poll_step env i operation s)
             else pollLoop env startTime (Suc i) operation (poll_step env i operation s))
      else (None, operation, s))"
  by pat_completeness auto
termination
  by (relation "measure (\<lambda>(env, startTime, i, operation, s). nat (TIMEOUT_MS - (now s - startTime)))")
     (auto simp: poll_step_def send_def TIMEOUT_MS_def)

declare pollLoop.simps [simp del]

text \<open>
  The part of \<open>generateVideo\<close> after the loop, for an operation that is done. The
  \<open>FileReader\<close> hands the encoded video to \<open>addToHistory\<close> in a later callback, which is
  run here after the last statement of the function.
\<close>

definition finishVideo :: "gen_env \<Rightarrow> string \<Rightarrow> operation \<Rightarrow> app_state \<Rightarrow> outcome" where
  "finishVideo env originalUserPrompt operation s =
     (case op_error operation of
        Some e \<Rightarrow> Thrown e s
      | None \<Rightarrow>
          (case video_uri operation of
             None \<Rightarrow> Thrown js_Error s
           | Some videoUri \<Rightarrow>
               if videoUri = [] then Thrown js_Error s
               else
                 (let s1 = send (Fetch (videoUri @ ''&key='' @
                                   (case apiKey s of Some k \<Rightarrow> k | None \<Rightarrow> ''null'')))
                             (latency env) s
                  in case fetch_reply env of
                       Inl e \<Rightarrow> Thrown e s1
                     | Inr videoBlob \<Rightarrow>
                         (let s2 = s1\<lparr>videoPlayer_src := object_url videoBlob,
                                      videoPlayer_display := DisplayBlock,
                                      downloadButton_href := object_url videoBlob,
                                      downloadButton_display := DisplayInlineBlock\<rparr>
                          in Returned
                               (addToHistory Video (base64_url videoBlob) originalUserPrompt
                                  (setStatus ''Video generated successfully.'' (resetUI s2)))))))"

definition timeout_status :: string where
  "timeout_status = ''Video generation timed out after 60 seconds. The model may be under high demand or the request is complex. Please try again later.''"

definition generateVideo :: "gen_env \<Rightarrow> app_state \<Rightarrow> outcome" where
  "generateVideo env s =
     (let originalUserPrompt = promptInput_value s;
          request = GenerateVideos ''veo-2.0-generate-001'' originalUserPrompt 1 (uploadedImage s);
          s1 = send request (latency env) (startCountdown s)
      in case videos_reply env of
           Inl e \<Rightarrow> Thrown e s1
         | Inr operation0 \<Rightarrow>
             (case pollLoop env (now s1) 0 operation0 s1 of
                (Some e, operation, s2) \<Rightarrow> Thrown e s2
              | (None, operation, s2) \<Rightarrow>
                  if \<not> op_done operation
                  then Returned (resetUI ((setStatus timeout_status s2)
                                   \<lparr>outputPlaceholder_display := DisplayBlock\<rparr>))
                  else finishVideo env originalUserPrompt operation s2))"

text \<open>The \<open>catch\<close> block of \<open>handleGenerateClick\<close>.\<close>

definition handleGenerateError :: "api_error \<Rightarrow> app_state \<Rightarrow> app_state" where
  "handleGenerateError error s =
     (let apiError = analyzeApiError error;
          errorMessage =
            (if apiError = VIDEO_DAILY_LIMIT
             then ''You have reached the daily limit for free video generations. Please try again tomorrow.''
             else if apiError = HIGH_DEMAND
             then ''The service is currently under high demand. Please try again in a few moments.''
             else if apiError = GENERAL_QUOTA
             then ''You've exceeded your API usage quota. Please wait and try again later, or check your Google AI Studio plan and billing details.''
             else ''An unexpected error occurred. Please try again.'');
          s1 = (if apiError = VIDEO_DAILY_LIMIT then s\<lparr>isVideoDailyLimitReached := True\<rparr> else s)
      in resetUI ((setStatus errorMessage s1)\<lparr>outputPlaceholder_display := DisplayBlock\<rparr>))"

text \<open>The statements of \<open>handleGenerateClick\<close> between the guard and the \<open>try\<close>.\<close>

definition beginGeneration :: "app_state \<Rightarrow> app_state" where
  "beginGeneration s =
     (setStatus [] (updateUIState (s\<lparr>isGenerating := True\<rparr>)))
       \<lparr>outputPlaceholder_display := DisplayNone,
        imageOutput_display := DisplayNone,
        videoPlayer_display := DisplayNone,
        downloadButton_display := DisplayNone\<rparr>"

text \<open>The body of the \<open>try\<close>.\<close>

definition generate :: "gen_env \<Rightarrow> app_state \<Rightarrow> outcome" where
  "generate env s = (if videoModeRadio_checked s then generateVideo env s else generateImage env s)"

definition handleGenerateClick :: "gen_env \<Rightarrow> app_state \<Rightarrow> app_state" where
  "handleGenerateClick env s =
     (if isGenerating s \<or> length (trim (promptInput_value s)) = 0 \<or> ai s = None then s
      else
        (case generate env (beginGeneration s) of
           Returned s' \<Rightarrow> s'
         | Thrown error s' \<Rightarrow> handleGenerateError error s'))"

section \<open>Example prompts and the attachment\<close>

text \<open>\<open>reply\<close> is \<open>Inr\<close> the array \<open>result.prompts\<close> of the parsed response (empty when the
  property is missing), or \<open>Inl\<close> what the request or \<open>JSON.parse\<close> throws.\<close>

definition getNewExamplePrompts :: "api_error + string list \<Rightarrow> app_state \<Rightarrow> app_state" where
  "getNewExamplePrompts reply s =
     (if ai s = None then s
      else
        (let s1 = send GenerateContentPrompts 0 (updateUIState (s\<lparr>isGeneratingNewPrompts := True\<rparr>));
             s2 = (case reply of
                     Inr prompts \<Rightarrow>
                       if prompts \<noteq> []
                       then setStatus [] (populateExamplePrompts (s1\<lparr>examplePrompts := prompts\<rparr>))
                       else s1
                   | Inl error \<Rightarrow>
                       if analyzeApiError error = GENERAL_QUOTA
                       then setStatus ''Could not fetch new examples due to API quota limits.'' s1
                       else setStatus ''Could not fetch new examples at this time.'' s1)
         in updateUIState (s2\<lparr>isGeneratingNewPrompts := False\<rparr>)))"

definition handleFileUpload :: "uploaded_image option \<Rightarrow> app_state \<Rightarrow> app_state" where
  "handleFileUpload file s =
     (case file of
        None \<Rightarrow> s
      | Some img \<Rightarrow> updateUIState (s\<lparr>uploadedImage := Some img\<rparr>))"

definition removeUploadedImage :: "app_state \<Rightarrow> app_state" where
  "removeUploadedImage s = updateUIState (s\<lparr>uploadedImage := None\<rparr>)"

section \<open>Events\<close>

text \<open>
  What the user can do on the page, with what the remote service answers. A handler runs
  to its end before the next event. The browser delivers no click to a disabled button,
  no input to a disabled field, and nothing to the key dialogue while it is hidden.
\<close>

datatype event =
    PromptInput string
  | ExampleClick nat
  | ModeChange bool
  | FileUpload "uploaded_image option"
  | RemoveImage
  | RefreshClick "api_error + string list"
  | SaveApiKey string "api_error + unit"
  | GenerateClick gen_env

fun step :: "event \<Rightarrow> app_state \<Rightarrow> app_state" where
  "step (PromptInput text) s =
     (if promptInput_disabled s then s else updateUIState (s\<lparr>promptInput_value := text\<rparr>))"
| "step (ExampleClick i) s =
     (if i < length (examplePromptsList_items s)
      then updateUIState (s\<lparr>promptInput_value := examplePromptsList_items s ! i\<rparr>)
      else s)"
| "step (ModeChange video) s =
     (if (if video then videoModeRadio_disabled s else imageModeRadio_disabled s) then s
      else handleModeChange (s\<lparr>videoModeRadio_checked := video\<rparr>))"
| "step (FileUpload file) s = (if uploadButton_disabled s then s else handleFileUpload file s)"
| "step RemoveImage s = removeUploadedImage s"
| "step (RefreshClick reply) s =
     (if refreshButton_disabled s then s else getNewExamplePrompts reply s)"
| "step (SaveApiKey text probe) s =
     (if apiKeyModalOverlay_visible s then handleSaveApiKey probe (s\<lparr>apiKeyInput_value := text\<rparr>)
      else s)"
| "step (GenerateClick env) s =
     (if generateButton_disabled s then s else handleGenerateClick env s)"

fun run :: "event list \<Rightarrow> app_state \<Rightarrow> app_state" where
  "run [] s = s"
| "run (e # es) s = run es (step e s)"

text \<open>A sequence of insertions into the history, each at its own time.\<close>

fun addAll :: "(media_kind \<times> string \<times> string \<times> int) list \<Rightarrow> app_state \<Rightarrow> app_state" where
  "addAll [] s = s"
| "addAll ((type, url, text, t) # xs) s = addAll xs (addToHistory type url text (s\<lparr>now := t\<rparr>))"

fun new_item :: "media_kind \<times> string \<times> string \<times> int \<Rightarrow> HistoryItem" where
  "new_item (type, url, text, t) = \<lparr>item_id = t, item_type = type, dataUrl = url, prompt = text\<rparr>"

section \<open>Outcomes, frames and invariants\<close>

fun outcome_state :: "outcome \<Rightarrow> app_state" where
  "outcome_state (Returned s) = s"
| "outcome_state (Thrown e s) = s"

fun thrown :: "outcome \<Rightarrow> api_error option" where
  "thrown (Returned s) = None"
| "thrown (Thrown e s) = Some e"

text \<open>\<open>s'\<close> differs from \<open>s\<close> in the request log and the clock at most.\<close>

definition only_log_and_clock :: "app_state \<Rightarrow> app_state \<Rightarrow> bool" where
  "only_log_and_clock s s' \<longleftrightarrow> s'\<lparr>requests := requests s, now := now s\<rparr> = s"

text \<open>What a generation reads and never writes.\<close>

definition same_inputs :: "app_state \<Rightarrow> app_state \<Rightarrow> bool" where
  "same_inputs s s' \<longleftrightarrow>
     ai s' = ai s \<and> apiKey s' = apiKey s
     \<and> videoModeRadio_checked s' = videoModeRadio_checked s
     \<and> isVideoDailyLimitReached s' = isVideoDailyLimitReached s
     \<and> promptInput_value s' = promptInput_value s
     \<and> uploadedImage s' = uploadedImage s
     \<and> isGeneratingNewPrompts s' = isGeneratingNewPrompts s
     \<and> apiKeyModalOverlay_visible s' = apiKeyModalOverlay_visible s"

text \<open>
  The state is one that \<open>resetUI\<close> has produced, up to status messages and insertions
  into the history that follow it.
\<close>

inductive after_resetUI :: "app_state \<Rightarrow> bool" where
  reset: "after_resetUI (resetUI t)"
| status: "after_resetUI s \<Longrightarrow> after_resetUI (setStatus m s)"
| added: "after_resetUI s \<Longrightarrow> after_resetUI (addToHistory k u p s)"

text \<open>
  What \<open>resetUI\<close> leaves behind: the busy flag is down, the queue panel is hidden, no
  countdown timer is left, the controls that \<open>updateUIState\<close> disables for the busy flag
  alone are enabled, and the two buttons that it disables for a second reason as well are
  disabled for that reason only.
\<close>

definition idle :: "app_state \<Rightarrow> bool" where
  "idle s \<longleftrightarrow>
     \<not> isGenerating s
     \<and> queueStatusContainer_display s = DisplayNone
     \<and> countdownInterval s \<in> {None, Some 0}
     \<and> \<not> imageModeRadio_disabled s \<and> \<not> videoModeRadio_disabled s
     \<and> \<not> uploadButton_disabled s \<and> \<not> promptInput_disabled s
     \<and> \<not> examplePromptsList_disabled s
     \<and> refreshButton_disabled s = isGeneratingNewPrompts s
     \<and> generateButton_disabled s =
          (promptIsEmpty s
           \<or> (ai s \<noteq> None \<and> videoModeRadio_checked s \<and> isVideoDailyLimitReached s))"

text \<open>Every control that \<open>updateUIState\<close> disables while the busy flag is up is enabled.\<close>

definition controls_enabled :: "app_state \<Rightarrow> bool" where
  "controls_enabled s \<longleftrightarrow>
     \<not> generateButton_disabled s
     \<and> \<not> imageModeRadio_disabled s \<and> \<not> videoModeRadio_disabled s
     \<and> \<not> uploadButton_disabled s \<and> \<not> promptInput_disabled s
     \<and> \<not> examplePromptsList_disabled s \<and> \<not> refreshButton_disabled s"

text \<open>A poll that neither finds the operation done nor fails with a quota error.\<close>

definition quiet :: "poll_reply \<Rightarrow> bool" where
  "quiet p =
     (case poll_result p of
        Inl e \<Rightarrow> analyzeApiError e \<noteq> GENERAL_QUOTA
      | Inr operation \<Rightarrow> \<not> op_done operation)"

definition daily_limit_status :: string where
  "daily_limit_status = ''Daily video limit reached. Try again tomorrow.''"

text \<open>
  What holds between two events of a session: a validated client means that the key
  dialogue is closed and nothing is being generated; the daily limit is only ever
  reached with a client; and with the limit reached and video mode selected the
  generate button is disabled and the status says so.
\<close>

definition consistent :: "app_state \<Rightarrow> bool" where
  "consistent s \<longleftrightarrow>
     (ai s \<noteq> None \<longrightarrow> \<not> apiKeyModalOverlay_visible s \<and> \<not> isGenerating s)
     \<and> (isVideoDailyLimitReached s \<longrightarrow> ai s \<noteq> None)
     \<and> (isVideoDailyLimitReached s \<and> videoModeRadio_checked s \<longrightarrow>
          generateButton_disabled s \<and> statusEl_textContent s = daily_limit_status)"

text \<open>A session: the script is loaded on a page, \<open>init\<close> runs, then events follow.\<close>

definition session :: "app_state \<Rightarrow> api_error + unit \<Rightarrow> event list \<Rightarrow> app_state" where
  "session page probe evs = run evs (init probe (module_load page))"

section \<open>Concrete pages and replies\<close>

text \<open>A page before the script runs: nothing typed, image mode selected, nothing stored.\<close>

definition blank_page :: app_state where
  "blank_page =
     \<lparr>isGenerating = False,
      isVideoDailyLimitReached = False,
      countdownInterval = None,
      uploadedImage = None,
      history = [],
      apiKey = None,
      examplePrompts = [],
      isGeneratingNewPrompts = False,
      ai = None,
      promptInput_value = [],
      promptInput_disabled = False,
      promptInput_placeholder = [],
      generateButton_disabled = False,
      generateButton_textContent = ''Generate'',
      refreshButton_disabled = False,
      uploadButton_disabled = False,
      imageModeRadio_disabled = False,
      videoModeRadio_disabled = False,
      videoModeRadio_checked = False,
      examplePromptsList_disabled = False,
      examplePromptsList_items = [],
      statusEl_textContent = [],
      outputPlaceholder_display = DisplayBlock,
      imageOutput_display = DisplayNone,
      imageOutput_src = [],
      videoPlayer_display = DisplayNone,
      videoPlayer_src = [],
      downloadButton_display = DisplayNone,
      downloadButton_href = [],
      queueStatusContainer_display = DisplayNone,
      apiKeyModalOverlay_visible = False,
      apiKeyInput_value = [],
      saveApiKeyButton_disabled = False,
      saveApiKeyButton_textContent = ''Save and Start'',
      localStorage = \<lparr>stored_api_key = None, stored_history = None\<rparr>,
      requests = [],
      now = 0\<rparr>"

text \<open>The same page with a key in the store.\<close>

definition keyed_page :: app_state where
  "keyed_page = blank_page\<lparr>localStorage := \<lparr>stored_api_key = Some ''key'', stored_history = None\<rparr>\<rparr>"

text \<open>A session whose stored key has passed the probe, with a prompt typed in.\<close>

definition ready_page :: app_state where
  "ready_page =
     session keyed_page (Inr ())
       [PromptInput ''A cinematic shot of an astronaut riding a horse on Mars'']"

definition an_item :: HistoryItem where
  "an_item = \<lparr>item_id = 0, item_type = Image, dataUrl = ''data:old'', prompt = ''old''\<rparr>"

definition an_operation :: operation where
  "an_operation = \<lparr>op_done = False, op_error = None, video_uri = None\<rparr>"

definition daily_limit_error :: api_error where
  "daily_limit_error =
     \<lparr>stringified = ''{\"error\":{\"code\":429,\"message\":\"You exceeded your current quota: limited free generations per day.\",\"status\":\"RESOURCE_EXHAUSTED\"}}'',
      error_code = Some 429\<rparr>"

definition quota_error :: api_error where
  "quota_error =
     \<lparr>stringified = ''{\"error\":{\"code\":429,\"message\":\"Too many requests.\",\"status\":\"RESOURCE_EXHAUSTED\"}}'',
      error_code = Some 429\<rparr>"

text \<open>A service that answers every request at once: the image request with one image, the
  video request with an operation that no poll ever finds done.\<close>

definition calm_env :: gen_env where
  "calm_env =
     \<lparr>analysis_reply = Inl js_Error,
      images_reply = Inr [''QUJD''],
      videos_reply = Inr an_operation,
      polls = (\<lambda>i. \<lparr>poll_delay = 0, poll_result = Inr an_operation\<rparr>),
      fetch_reply = Inl js_Error,
      latency = 0\<rparr>"

text \<open>The same service, refusing the video request for the daily limit.\<close>

definition limit_env :: gen_env where
  "limit_env = calm_env\<lparr>videos_reply := Inl daily_limit_error\<rparr>"

definition video_page :: app_state where
  "video_page = step (ModeChange True) ready_page"

definition full_page :: app_state where
  "full_page = blank_page\<lparr>history := replicate 20 an_item\<rparr>"

section \<open>What the basic operations read and write\<close>

lemma setStatus_sel [simp]:
  "isGenerating (setStatus m s) = isGenerating s"
  "isVideoDailyLimitReached (setStatus m s) = isVideoDailyLimitReached s"
  "countdownInterval (setStatus m s) = countdownInterval s"
  "uploadedImage (setStatus m s) = uploadedImage s"
  "history (setStatus m s) = history s"
  "apiKey (setStatus m s) = apiKey s"
  "examplePrompts (setStatus m s) = examplePrompts s"
  "isGeneratingNewPrompts (setStatus m s) = isGeneratingNewPrompts s"
  "ai (setStatus m s) = ai s"
  "promptInput_value (setStatus m s) = promptInput_value s"
  "promptInput_disabled (setStatus m s) = promptInput_disabled s"
  "promptInput_placeholder (setStatus m s) = promptInput_placeholder s"
  "generateButton_disabled (setStatus m s) = generateButton_disabled s"
  "generateButton_textContent (setStatus m s) = generateButton_textContent s"
  "refreshButton_disabled (setStatus m s) = refreshButton_disabled s"
  "uploadButton_disabled (setStatus m s) = uploadButton_disabled s"
  "imageModeRadio_disabled (setStatus m s) = imageModeRadio_disabled s"
  "videoModeRadio_disabled (setStatus m s) = videoModeRadio_disabled s"
  "videoModeRadio_checked (setStatus m s) = videoModeRadio_checked s"
  "examplePromptsList_disabled (setStatus m s) = examplePromptsList_disabled s"
  "examplePromptsList_items (setStatus m s) = examplePromptsList_items s"
  "statusEl_textContent (setStatus m s) = m"
  "outputPlaceholder_display (setStatus m s) = outputPlaceholder_display s"
  "imageOutput_display (setStatus m s) = imageOutput_display s"
  "imageOutput_src (setStatus m s) = imageOutput_src s"
  "videoPlayer_display (setStatus m s) = videoPlayer_display s"
  "videoPlayer_src (setStatus m s) = videoPlayer_src s"
  "downloadButton_display (setStatus m s) = downloadButton_display s"
  "downloadButton_href (setStatus m s) = downloadButton_href s"
  "queueStatusContainer_display (setStatus m s) = queueStatusContainer_display s"
  "apiKeyModalOverlay_visible (setStatus m s) = apiKeyModalOverlay_visible s"
  "apiKeyInput_value (setStatus m s) = apiKeyInput_value s"
  "saveApiKeyButton_disabled (setStatus m s) = saveApiKeyButton_disabled s"
  "saveApiKeyButton_textContent (setStatus m s) = saveApiKeyButton_textContent s"
  "localStorage (setStatus m s) = localStorage s"
  "requests (setStatus m s) = requests s"
  "now (setStatus m s) = now s"
  by (simp_all add: setStatus_def)

lemma send_sel [simp]:
  "isGenerating (send r d s) = isGenerating s"
  "isVideoDailyLimitReached (send r d s) = isVideoDailyLimitReached s"
  "countdownInterval (send r d s) = countdownInterval s"
  "uploadedImage (send r d s) = uploadedImage s"
  "history (send r d s) = history s"
  "apiKey (send r d s) = apiKey s"
  "examplePrompts (send r d s) = examplePrompts s"
  "isGeneratingNewPrompts (send r d s) = isGeneratingNewPrompts s"
  "ai (send r d s) = ai s"
  "promptInput_value (send r d s) = promptInput_value s"
  "promptInput_disabled (send r d s) = promptInput_disabled s"
  "promptInput_placeholder (send r d s) = promptInput_placeholder s"
  "generateButton_disabled (send r d s) = generateButton_disabled s"
  "generateButton_textContent (send r d s) = generateButton_textContent s"
  "refreshButton_disabled (send r d s) = refreshButton_disabled s"
  "uploadButton_disabled (send r d s) = uploadButton_disabled s"
  "imageModeRadio_disabled (send r d s) = imageModeRadio_disabled s"
  "videoModeRadio_disabled (send r d s) = videoModeRadio_disabled s"
  "videoModeRadio_checked (send r d s) = videoModeRadio_checked s"
  "examplePromptsList_disabled (send r d s) = examplePromptsList_disabled s"
  "examplePromptsList_items (send r d s) = examplePromptsList_items s"
  "statusEl_textContent (send r d s) = statusEl_textContent s"
  "outputPlaceholder_display (send r d s) = outputPlaceholder_display s"
  "imageOutput_display (send r d s) = imageOutput_display s"
  "imageOutput_src (send r d s) = imageOutput_src s"
  "videoPlayer_display (send r d s) = videoPlayer_display s"
  "videoPlayer_src (send r d s) = videoPlayer_src s"
  "downloadButton_display (send r d s) = downloadButton_display s"
  "downloadButton_href (send r d s) = downloadButton_href s"
  "queueStatusContainer_display (send r d s) = queueStatusContainer_display s"
  "apiKeyModalOverlay_visible (send r d s) = apiKeyModalOverlay_visible s"
  "apiKeyInput_value (send r d s) = apiKeyInput_value s"
  "saveApiKeyButton_disabled (send r d s) = saveApiKeyButton_disabled s"
  "saveApiKeyButton_textContent (send r d s) = saveApiKeyButton_textContent s"
  "localStorage (send r d s) = localStorage s"
  "requests (send r d s) = requests s @ [r]"
  "now (send r d s) = now s + int d"
  by (simp_all add: send_def)

lemma startCountdown_sel [simp]:
  "isGenerating (startCountdown s) = isGenerating s"
  "isVideoDailyLimitReached (startCountdown s) = isVideoDailyLimitReached s"
  "countdownInterval (startCountdown s) = Some 1"
  "uploadedImage (startCountdown s) = uploadedImage s"
  "history (startCountdown s) = history s"
  "apiKey (startCountdown s) = apiKey s"
  "examplePrompts (startCountdown s) = examplePrompts s"
  "isGeneratingNewPrompts (startCountdown s) = isGeneratingNewPrompts s"
  "ai (startCountdown s) = ai s"
  "promptInput_value (startCountdown s) = promptInput_value s"
  "promptInput_disabled (startCountdown s) = promptInput_disabled s"
  "promptInput_placeholder (startCountdown s) = promptInput_placeholder s"
  "generateButton_disabled (startCountdown s) = generateButton_disabled s"
  "generateButton_textContent (startCountdown s) = generateButton_textContent s"
  "refreshButton_disabled (startCountdown s) = refreshButton_disabled s"
  "uploadButton_disabled (startCountdown s) = uploadButton_disabled s"
  "imageModeRadio_disabled (startCountdown s) = imageModeRadio_disabled s"
  "videoModeRadio_disabled (startCountdown s) = videoModeRadio_disabled s"
  "videoModeRadio_checked (startCountdown s) = videoModeRadio_checked s"
  "examplePromptsList_disabled (startCountdown s) = examplePromptsList_disabled s"
  "examplePromptsList_items (startCountdown s) = examplePromptsList_items s"
  "statusEl_textContent (startCountdown s) = statusEl_textContent s"
  "outputPlaceholder_display (startCountdown s) = DisplayNone"
  "imageOutput_display (startCountdown s) = imageOutput_display s"
  "imageOutput_src (startCountdown s) = imageOutput_src s"
  "videoPlayer_display (startCountdown s) = videoPlayer_display s"
  "videoPlayer_src (startCountdown s) = videoPlayer_src s"
  "downloadButton_display (startCountdown s) = downloadButton_display s"
  "downloadButton_href (startCountdown s) = downloadButton_href s"
  "queueStatusContainer_display (startCountdown s) = DisplayFlex"
  "apiKeyModalOverlay_visible (startCountdown s) = apiKeyModalOverlay_visible s"
  "apiKeyInput_value (startCountdown s) = apiKeyInput_value s"
  "saveApiKeyButton_disabled (startCountdown s) = saveApiKeyButton_disabled s"
  "saveApiKeyButton_textContent (startCountdown s) = saveApiKeyButton_textContent s"
  "localStorage (startCountdown s) = localStorage s"
  "requests (startCountdown s) = requests s"
  "now (startCountdown s) = now s"
  by (simp_all add: startCountdown_def)

lemma populateExamplePrompts_sel [simp]:
  "isGenerating (populateExamplePrompts s) = isGenerating s"
  "isVideoDailyLimitReached (populateExamplePrompts s) = isVideoDailyLimitReached s"
  "countdownInterval (populateExamplePrompts s) = countdownInterval s"
  "uploadedImage (populateExamplePrompts s) = uploadedImage s"
  "history (populateExamplePrompts s) = history s"
  "apiKey (populateExamplePrompts s) = apiKey s"
  "examplePrompts (populateExamplePrompts s) = examplePrompts s"
  "isGeneratingNewPrompts (populateExamplePrompts s) = isGeneratingNewPrompts s"
  "ai (populateExamplePrompts s) = ai s"
  "promptInput_value (populateExamplePrompts s) = promptInput_value s"
  "promptInput_disabled (populateExamplePrompts s) = promptInput_disabled s"
  "promptInput_placeholder (populateExamplePrompts s) = promptInput_placeholder s"
  "generateButton_disabled (populateExamplePrompts s) = generateButton_disabled s"
  "generateButton_textContent (populateExamplePrompts s) = generateButton_textContent s"
  "refreshButton_disabled (populateExamplePrompts s) = refreshButton_disabled s"
  "uploadButton_disabled (populateExamplePrompts s) = uploadButton_disabled s"
  "imageModeRadio_disabled (populateExamplePrompts s) = imageModeRadio_disabled s"
  "videoModeRadio_disabled (populateExamplePrompts s) = videoModeRadio_disabled s"
  "videoModeRadio_checked (populateExamplePrompts s) = videoModeRadio_checked s"
  "examplePromptsList_disabled (populateExamplePrompts s) = examplePromptsList_disabled s"
  "examplePromptsList_items (populateExamplePrompts s) = examplePrompts s"
  "statusEl_textContent (populateExamplePrompts s) = statusEl_textContent s"
  "outputPlaceholder_display (populateExamplePrompts s) = outputPlaceholder_display s"
  "imageOutput_display (populateExamplePrompts s) = imageOutput_display s"
  "imageOutput_src (populateExamplePrompts s) = imageOutput_src s"
  "videoPlayer_display (populateExamplePrompts s) = videoPlayer_display s"
  "videoPlayer_src (populateExamplePrompts s) = videoPlayer_src s"
  "downloadButton_display (populateExamplePrompts s) = downloadButton_display s"
  "downloadButton_href (populateExamplePrompts s) = downloadButton_href s"
  "queueStatusContainer_display (populateExamplePrompts s) = queueStatusContainer_display s"
  "apiKeyModalOverlay_visible (populateExamplePrompts s) = apiKeyModalOverlay_visible s"
  "apiKeyInput_value (populateExamplePrompts s) = apiKeyInput_value s"
  "saveApiKeyButton_disabled (populateExamplePrompts s) = saveApiKeyButton_disabled s"
  "saveApiKeyButton_textContent (populateExamplePrompts s) = saveApiKeyButton_textContent s"
  "localStorage (populateExamplePrompts s) = localStorage s"
  "requests (populateExamplePrompts s) = requests s"
  "now (populateExamplePrompts s) = now s"
  by (simp_all add: populateExamplePrompts_def)

lemma updateUIState_sel [simp]:
  "isGenerating (updateUIState s) = isGenerating s"
  "isVideoDailyLimitReached (updateUIState s) = isVideoDailyLimitReached s"
  "countdownInterval (updateUIState s) = countdownInterval s"
  "uploadedImage (updateUIState s) = uploadedImage s"
  "history (updateUIState s) = history s"
  "apiKey (updateUIState s) = apiKey s"
  "examplePrompts (updateUIState s) = examplePrompts s"
  "isGeneratingNewPrompts (updateUIState s) = isGeneratingNewPrompts s"
  "ai (updateUIState s) = ai s"
  "promptInput_value (updateUIState s) = promptInput_value s"
  "promptInput_disabled (updateUIState s) = isGenerating s"
  "generateButton_disabled (updateUIState s) = (isGenerating s \<or> promptIsEmpty s \<or> (ai s \<noteq> None \<and> videoModeRadio_checked s \<and> isVideoDailyLimitReached s))"
  "refreshButton_disabled (updateUIState s) = (isGenerating s \<or> isGeneratingNewPrompts s)"
  "uploadButton_disabled (updateUIState s) = isGenerating s"
  "imageModeRadio_disabled (updateUIState s) = isGenerating s"
  "videoModeRadio_disabled (updateUIState s) = isGenerating s"
  "videoModeRadio_checked (updateUIState s) = videoModeRadio_checked s"
  "examplePromptsList_disabled (updateUIState s) = isGenerating s"
  "examplePromptsList_items (updateUIState s) = examplePromptsList_items s"
  "statusEl_textContent (updateUIState s) = (if \<not> isGenerating s \<and> ai s \<noteq> None \<and> videoModeRadio_checked s \<and> isVideoDailyLimitReached s then ''Daily video limit reached. Try again tomorrow.'' else statusEl_textContent s)"
  "outputPlaceholder_display (updateUIState s) = outputPlaceholder_display s"
  "imageOutput_display (updateUIState s) = imageOutput_display s"
  "imageOutput_src (updateUIState s) = imageOutput_src s"
  "videoPlayer_display (updateUIState s) = videoPlayer_display s"
  "videoPlayer_src (updateUIState s) = videoPlayer_src s"
  "downloadButton_display (updateUIState s) = downloadButton_display s"
  "downloadButton_href (updateUIState s) = downloadButton_href s"
  "queueStatusContainer_display (updateUIState s) = queueStatusContainer_display s"
  "apiKeyModalOverlay_visible (updateUIState s) = apiKeyModalOverlay_visible s"
  "apiKeyInput_value (updateUIState s) = apiKeyInput_value s"
  "saveApiKeyButton_disabled (updateUIState s) = saveApiKeyButton_disabled s"
  "saveApiKeyButton_textContent (updateUIState s) = saveApiKeyButton_textContent s"
  "localStorage (updateUIState s) = localStorage s"
  "requests (updateUIState s) = requests s"
  "now (updateUIState s) = now s"
  by (auto simp: updateUIState_def Let_def setStatus_def)

lemma resetUI_sel [simp]:
  "isGenerating (resetUI s) = False"
  "isVideoDailyLimitReached (resetUI s) = isVideoDailyLimitReached s"
  "countdownInterval (resetUI s) = (case countdownInterval s of None \<Rightarrow> None | Some h \<Rightarrow> if h \<noteq> 0 then None else Some h)"
  "uploadedImage (resetUI s) = uploadedImage s"
  "history (resetUI s) = history s"
  "apiKey (resetUI s) = apiKey s"
  "examplePrompts (resetUI s) = examplePrompts s"
  "isGeneratingNewPrompts (resetUI s) = isGeneratingNewPrompts s"
  "ai (resetUI s) = ai s"
  "promptInput_value (resetUI s) = promptInput_value s"
  "promptInput_disabled (resetUI s) = False"
  "generateButton_disabled (resetUI s) = (promptIsEmpty s \<or> (ai s \<noteq> None \<and> videoModeRadio_checked s \<and> isVideoDailyLimitReached s))"
  "refreshButton_disabled (resetUI s) = isGeneratingNewPrompts s"
  "uploadButton_disabled (resetUI s) = False"
  "imageModeRadio_disabled (resetUI s) = False"
  "videoModeRadio_disabled (resetUI s) = False"
  "videoModeRadio_checked (resetUI s) = videoModeRadio_checked s"
  "examplePromptsList_disabled (resetUI s) = False"
  "examplePromptsList_items (resetUI s) = examplePromptsList_items s"
  "statusEl_textContent (resetUI s) = (if ai s \<noteq> None \<and> videoModeRadio_checked s \<and> isVideoDailyLimitReached s then ''Daily video limit reached. Try again tomorrow.'' else statusEl_textContent s)"
  "outputPlaceholder_display (resetUI s) = outputPlaceholder_display s"
  "imageOutput_display (resetUI s) = imageOutput_display s"
  "imageOutput_src (resetUI s) = imageOutput_src s"
  "videoPlayer_display (resetUI s) = videoPlayer_display s"
  "videoPlayer_src (resetUI s) = videoPlayer_src s"
  "downloadButton_display (resetUI s) = downloadButton_display s"
  "downloadButton_href (resetUI s) = downloadButton_href s"
  "queueStatusContainer_display (resetUI s) = DisplayNone"
  "apiKeyModalOverlay_visible (resetUI s) = apiKeyModalOverlay_visible s"
  "apiKeyInput_value (resetUI s) = apiKeyInput_value s"
  "saveApiKeyButton_disabled (resetUI s) = saveApiKeyButton_disabled s"
  "saveApiKeyButton_textContent (resetUI s) = saveApiKeyButton_textContent s"
  "localStorage (resetUI s) = localStorage s"
  "requests (resetUI s) = requests s"
  "now (resetUI s) = now s"
  by (auto simp: resetUI_def promptIsEmpty_def)

lemma addToHistory_sel [simp]:
  "isGenerating (addToHistory k u p s) = isGenerating s"
  "isVideoDailyLimitReached (addToHistory k u p s) = isVideoDailyLimitReached s"
  "countdownInterval (addToHistory k u p s) = countdownInterval s"
  "uploadedImage (addToHistory k u p s) = uploadedImage s"
  "history (addToHistory k u p s) = (if length (history s) < 20 then \<lparr>item_id = now s, item_type = k, dataUrl = u, prompt = p\<rparr> # history s else butlast (\<lparr>item_id = now s, item_type = k, dataUrl = u, prompt = p\<rparr> # history s))"
  "apiKey (addToHistory k u p s) = apiKey s"
  "examplePrompts (addToHistory k u p s) = examplePrompts s"
  "isGeneratingNewPrompts (addToHistory k u p s) = isGeneratingNewPrompts s"
  "ai (addToHistory k u p s) = ai s"
  "promptInput_value (addToHistory k u p s) = promptInput_value s"
  "promptInput_disabled (addToHistory k u p s) = promptInput_disabled s"
  "promptInput_placeholder (addToHistory k u p s) = promptInput_placeholder s"
  "generateButton_disabled (addToHistory k u p s) = generateButton_disabled s"
  "generateButton_textContent (addToHistory k u p s) = generateButton_textContent s"
  "refreshButton_disabled (addToHistory k u p s) = refreshButton_disabled s"
  "uploadButton_disabled (addToHistory k u p s) = uploadButton_disabled s"
  "imageModeRadio_disabled (addToHistory k u p s) = imageModeRadio_disabled s"
  "videoModeRadio_disabled (addToHistory k u p s) = videoModeRadio_disabled s"
  "videoModeRadio_checked (addToHistory k u p s) = videoModeRadio_checked s"
  "examplePromptsList_disabled (addToHistory k u p s) = examplePromptsList_disabled s"
  "examplePromptsList_items (addToHistory k u p s) = examplePromptsList_items s"
  "statusEl_textContent (addToHistory k u p s) = statusEl_textContent s"
  "outputPlaceholder_display (addToHistory k u p s) = outputPlaceholder_display s"
  "imageOutput_display (addToHistory k u p s) = imageOutput_display s"
  "imageOutput_src (addToHistory k u p s) = imageOutput_src s"
  "videoPlayer_display (addToHistory k u p s) = videoPlayer_display s"
  "videoPlayer_src (addToHistory k u p s) = videoPlayer_src s"
  "downloadButton_display (addToHistory k u p s) = downloadButton_display s"
  "downloadButton_href (addToHistory k u p s) = downloadButton_href s"
  "queueStatusContainer_display (addToHistory k u p s) = queueStatusContainer_display s"
  "apiKeyModalOverlay_visible (addToHistory k u p s) = apiKeyModalOverlay_visible s"
  "apiKeyInput_value (addToHistory k u p s) = apiKeyInput_value s"
  "saveApiKeyButton_disabled (addToHistory k u p s) = saveApiKeyButton_disabled s"
  "saveApiKeyButton_textContent (addToHistory k u p s) = saveApiKeyButton_textContent s"
  "requests (addToHistory k u p s) = requests s"
  "now (addToHistory k u p s) = now s"
  by (simp_all add: addToHistory_def saveHistory_def Let_def)

section \<open>The concrete pages\<close>

lemma ready_page_facts:
  "\<not> isGenerating ready_page" "\<not> promptIsEmpty ready_page" "ai ready_page = Some ''key''"
  "\<not> videoModeRadio_checked ready_page" "uploadedImage ready_page = None"
  "\<not> isVideoDailyLimitReached ready_page"
  "promptInput_value ready_page = ''A cinematic shot of an astronaut riding a horse on Mars''"
  "history ready_page = []" "now ready_page = 0"
  "requests ready_page = [GenerateContentTest ''key'']"
  by code_simp+

lemma video_page_facts:
  "\<not> isGenerating video_page" "\<not> promptIsEmpty video_page" "ai video_page = Some ''key''"
  "videoModeRadio_checked video_page" "\<not> isVideoDailyLimitReached video_page"
  by code_simp+

lemma calm_env_quiet: "\<forall>i<6. quiet (polls calm_env i)"
  by (simp add: calm_env_def quiet_def an_operation_def)

section \<open>Strings: lower case keeps lower-case substrings\<close>

lemma lower_char_fixed:
  "c \<notin> set upper_chars \<Longrightarrow> lower_char c = c"
  by (simp add: lower_char_def upper_chars_def lower_chars_def)

lemma toLowerCase_fixed:
  "set t \<inter> set upper_chars = {} \<Longrightarrow> toLowerCase t = t"
  unfolding toLowerCase_def
  by (rule map_idI) (rule lower_char_fixed, blast)

lemma includes_toLowerCase:
  assumes "str_includes s t" and "set t \<inter> set upper_chars = {}"
  shows "str_includes (toLowerCase s) t"
proof -
  have "sublist (map lower_char t) (map lower_char s)"
    using assms(1) unfolding str_includes_def by (rule map_mono_sublist)
  moreover have "map lower_char t = t"
    using toLowerCase_fixed [OF assms(2)] by (simp add: toLowerCase_def)
  ultimately show ?thesis
    by (simp add: str_includes_def toLowerCase_def)
qed

lemma includes_lower_daily:
  "str_includes s ''limited free generations per day'' \<Longrightarrow>
   str_includes (toLowerCase s) ''limited free generations per day''"
  by (rule includes_toLowerCase) (simp_all add: upper_chars_def)

lemma includes_lower_quota:
  "str_includes s ''quota'' \<Longrightarrow> str_includes (toLowerCase s) ''quota''"
  by (rule includes_toLowerCase) (simp_all add: upper_chars_def)

lemma includes_lower_exhausted:
  "str_includes s ''resource_exhausted'' \<Longrightarrow> str_includes (toLowerCase s) ''resource_exhausted''"
  by (rule includes_toLowerCase) (simp_all add: upper_chars_def)

lemma analyze_daily:
  "str_includes (stringified e) ''limited free generations per day'' \<Longrightarrow>
   analyzeApiError e = VIDEO_DAILY_LIMIT"
  by (simp add: analyzeApiError_def includes_lower_daily)

section \<open>History\<close>

lemma take_append_take: "take n (xs @ take n ys) = take n (xs @ ys)"
  by simp

lemma addToHistory_take:
  "length (history s) \<le> 20 \<Longrightarrow>
   history (addToHistory k u p s) =
     take 20 (\<lparr>item_id = now s, item_type = k, dataUrl = u, prompt = p\<rparr> # history s)"
  by (simp add: butlast_conv_take)

lemma addToHistory_stored:
  "stored_history (localStorage (addToHistory k u p s)) = Some (history (addToHistory k u p s))"
  by (simp add: addToHistory_def saveHistory_def Let_def)

lemma addToHistory_length:
  "length (history (addToHistory k u p s)) =
     (if length (history s) < 20 then length (history s) + 1 else length (history s))"
  by simp

lemma addAll_history:
  "length (history s) \<le> 20 \<Longrightarrow>
   history (addAll xs s) = take 20 (rev (map new_item xs) @ history s)"
proof (induction xs arbitrary: s)
  case Nil
  then show ?case by simp
next
  case (Cons x xs)
  obtain k u p t where x: "x = (k, u, p, t)"
    by (cases x) auto
  let ?s = "addToHistory k u p (s\<lparr>now := t\<rparr>)"
  have h: "history ?s = take 20 (new_item x # history s)"
    using Cons.prems by (simp add: x butlast_conv_take)
  then have "length (history ?s) \<le> 20" by simp
  then have ih: "history (addAll xs ?s) = take 20 (rev (map new_item xs) @ history ?s)"
    by (rule Cons.IH)
  have "history (addAll (x # xs) s) = history (addAll xs ?s)"
    by (simp add: x)
  also have "\<dots> = take 20 (rev (map new_item xs) @ take 20 (new_item x # history s))"
    by (simp only: ih h)
  also have "\<dots> = take 20 (rev (map new_item xs) @ new_item x # history s)"
    by (rule take_append_take)
  also have "\<dots> = take 20 (rev (map new_item (x # xs)) @ history s)"
    by simp
  finally show ?case .
qed

lemma addAll_stored:
  "xs \<noteq> [] \<Longrightarrow> stored_history (localStorage (addAll xs s)) = Some (history (addAll xs s))"
proof (induction xs arbitrary: s)
  case Nil
  then show ?case by simp
next
  case (Cons x xs)
  obtain k u p t where x: "x = (k, u, p, t)"
    by (cases x) auto
  show ?case
  proof (cases "xs = []")
    case True
    then show ?thesis by (simp add: x addToHistory_stored)
  next
    case False
    then show ?thesis using Cons.IH by (simp add: x)
  qed
qed

text \<open>
  C1. Whatever sequence of insertions is made into a history of at most 20 items, the
  history then holds the inserted items, newest first, in front of the old ones, cut
  after 20 items (so the oldest are the ones dropped); it never holds more than 20; and
  the stored list is the history.
\<close>

theorem history_capped_newest_first:
  assumes "length (history s) \<le> 20"
  shows "history (addAll xs s) = take 20 (rev (map new_item xs) @ history s)
    \<and> length (history (addAll xs s)) \<le> 20
    \<and> (xs \<noteq> [] \<longrightarrow> stored_history (localStorage (addAll xs s)) = Some (history (addAll xs s)))"
  using addAll_history [OF assms, of xs] addAll_stored [of xs s] by simp

theorem history_capped_newest_first_witness:
  "length (history full_page) \<le> 20
   \<and> history (addAll [(Image, ''data:a'', ''first'', 1), (Video, ''data:b'', ''second'', 2)] full_page)
       = \<lparr>item_id = 2, item_type = Video, dataUrl = ''data:b'', prompt = ''second''\<rparr>
         # \<lparr>item_id = 1, item_type = Image, dataUrl = ''data:a'', prompt = ''first''\<rparr>
         # replicate 18 an_item"
proof -
  have h: "length (history full_page) \<le> 20"
    by (simp add: full_page_def)
  have r: "replicate 20 an_item = replicate 18 an_item @ replicate 2 an_item"
    by (simp add: replicate_add [symmetric])
  show ?thesis
    using h history_capped_newest_first
      [OF h, of "[(Image, ''data:a'', ''first'', 1), (Video, ''data:b'', ''second'', 2)]"]
    by (simp add: full_page_def r del: replicate_Suc replicate.simps)
qed

text \<open>
  C10. \<open>loadHistory\<close> takes the stored list as it is, and one insertion drops one item at
  most: a stored list of more than 20 items is still longer than 20 after the next
  insertion, while one of at most 20 items stays within 20.
\<close>

theorem loaded_history_not_truncated:
  assumes "stored_history (localStorage s) = Some xs"
  shows "history (loadHistory s) = xs
    \<and> length (history (addToHistory k u p (loadHistory s)))
        = (if length xs < 20 then length xs + 1 else length xs)
    \<and> (20 < length xs \<longrightarrow> 20 < length (history (addToHistory k u p (loadHistory s))))
    \<and> (length xs \<le> 20 \<longrightarrow> length (history (addToHistory k u p (loadHistory s))) \<le> 20)"
proof -
  have "history (loadHistory s) = xs"
    using assms by (simp add: loadHistory_def)
  then show ?thesis
    by (simp add: addToHistory_length)
qed

theorem loaded_history_not_truncated_witness:
  "stored_history (localStorage (blank_page\<lparr>localStorage :=
       \<lparr>stored_api_key = None, stored_history = Some (replicate 25 an_item)\<rparr>\<rparr>))
     = Some (replicate 25 an_item)
   \<and> length (history (addToHistory Image ''data:a'' ''new''
        (loadHistory (blank_page\<lparr>localStorage :=
           \<lparr>stored_api_key = None, stored_history = Some (replicate 25 an_item)\<rparr>\<rparr>)))) = 25"
proof -
  let ?s = "blank_page\<lparr>localStorage :=
       \<lparr>stored_api_key = None, stored_history = Some (replicate 25 an_item)\<rparr>\<rparr>"
  have h: "stored_history (localStorage ?s) = Some (replicate 25 an_item)"
    by simp
  show ?thesis
    using h loaded_history_not_truncated [OF h, of Image "''data:a''" "''new''"]
    by simp
qed

section \<open>The guard of the generate operation\<close>

text \<open>What \<open>trim\<close> leaves is empty exactly when every character is white space.\<close>

lemma trim_empty_iff: "trim s = [] \<longleftrightarrow> (\<forall>c \<in> set s. is_space c)"
proof
  assume e: "trim s = []"
  show "\<forall>c \<in> set s. is_space c"
  proof (rule ccontr)
    assume "\<not> (\<forall>c \<in> set s. is_space c)"
    then have ne: "dropWhile is_space s \<noteq> []"
      by (simp add: dropWhile_eq_Nil_conv)
    then have "\<not> is_space (hd (dropWhile is_space s))"
      by (rule hd_dropWhile)
    moreover have "hd (dropWhile is_space s) \<in> set (rev (dropWhile is_space s))"
      using ne by simp
    ultimately have "dropWhile is_space (rev (dropWhile is_space s)) \<noteq> []"
      by (auto simp: dropWhile_eq_Nil_conv)
    then show False
      using e by (simp add: trim_def)
  qed
next
  assume "\<forall>c \<in> set s. is_space c"
  then have d: "dropWhile is_space s = []"
    by (simp add: dropWhile_eq_Nil_conv)
  show "trim s = []"
    unfolding trim_def d by simp
qed

lemma promptIsEmpty_iff: "promptIsEmpty s \<longleftrightarrow> (\<forall>c \<in> set (promptInput_value s). is_space c)"
  by (simp add: promptIsEmpty_def trim_empty_iff)

text \<open>A prompt of a no-break space alone is empty after \<open>trim\<close>.\<close>

lemma trim_no_break_space: "trim [CHR 0xA0] = []"
  by (simp add: trim_def is_space_def)

text \<open>
  C2. While the busy flag is up, or the trimmed prompt is empty, or there is no client,
  \<open>handleGenerateClick\<close> returns the state it was given: nothing is changed, and no
  request is added to the log.
\<close>

theorem generate_guard_noop:
  assumes "isGenerating s \<or> promptIsEmpty s \<or> ai s = None"
  shows "handleGenerateClick env s = s
    \<and> requests (handleGenerateClick env s) = requests s"
  using assms by (auto simp: handleGenerateClick_def promptIsEmpty_def)

text \<open>With a client and the busy flag down, on a prompt of a space, a no-break space and
  a line feed.\<close>

theorem generate_guard_noop_witness:
  "\<not> isGenerating (ready_page\<lparr>promptInput_value := [CHR '' '', CHR 0xA0, CHR 0x0A]\<rparr>)
   \<and> ai (ready_page\<lparr>promptInput_value := [CHR '' '', CHR 0xA0, CHR 0x0A]\<rparr>) = Some ''key''
   \<and> promptIsEmpty (ready_page\<lparr>promptInput_value := [CHR '' '', CHR 0xA0, CHR 0x0A]\<rparr>)
   \<and> handleGenerateClick calm_env (ready_page\<lparr>promptInput_value := [CHR '' '', CHR 0xA0, CHR 0x0A]\<rparr>)
       = ready_page\<lparr>promptInput_value := [CHR '' '', CHR 0xA0, CHR 0x0A]\<rparr>"
proof -
  let ?s = "ready_page\<lparr>promptInput_value := [CHR '' '', CHR 0xA0, CHR 0x0A]\<rparr>"
  have e: "promptIsEmpty ?s"
    by (simp add: promptIsEmpty_iff is_space_def)
  then have h: "isGenerating ?s \<or> promptIsEmpty ?s \<or> ai ?s = None"
    by simp
  have a: "\<not> isGenerating ?s" "ai ?s = Some ''key''"
    using ready_page_facts(1,3) by simp_all
  show ?thesis
    using e a generate_guard_noop [OF h, of calm_env] by simp
qed

section \<open>Classification of errors\<close>

text \<open>
  C5, as the code has it. The daily limit is looked for first. A payload whose lower-case
  serialisation does not hold the phrase of the daily limit, and that has the code 429 or
  whose serialisation contains \<open>quota\<close> or \<open>resource_exhausted\<close>, is a general quota
  error, whatever else it holds.
\<close>

theorem general_quota_unless_daily_limit:
  assumes "\<not> str_includes (toLowerCase (stringified e)) ''limited free generations per day''"
    and "error_code e = Some 429 \<or> str_includes (stringified e) ''quota''
           \<or> str_includes (stringified e) ''resource_exhausted''"
  shows "analyzeApiError e = GENERAL_QUOTA"
  using assms
  by (auto simp: analyzeApiError_def dest: includes_lower_quota includes_lower_exhausted)

theorem general_quota_unless_daily_limit_witness:
  "\<not> str_includes (toLowerCase (stringified quota_error)) ''limited free generations per day''
   \<and> error_code quota_error = Some 429
   \<and> analyzeApiError quota_error = GENERAL_QUOTA"
proof -
  have a: "\<not> str_includes (toLowerCase (stringified quota_error)) ''limited free generations per day''"
    by code_simp
  have b: "error_code quota_error = Some 429"
    by (simp add: quota_error_def)
  show ?thesis
    using a b general_quota_unless_daily_limit [OF a] by blast
qed

text \<open>
  The claim C5 as it is written fails: a payload with the code 429 and the word \<open>quota\<close>
  that also holds the phrase of the daily limit is classified as the daily limit.
\<close>

theorem general_quota_counterexample:
  "error_code daily_limit_error = Some 429
   \<and> str_includes (stringified daily_limit_error) ''quota''
   \<and> analyzeApiError daily_limit_error \<noteq> GENERAL_QUOTA"
  by code_simp


section \<open>Key validation\<close>

text \<open>
  C9. When the probe succeeds, the candidate key is the active key and that of the client,
  it is stored, the status is cleared, and the application is released. When the probe
  fails, the client is the one there was before (none, on a first attempt), no key is
  active, the stored key is removed, the status reports the invalid key, and the key
  dialogue is shown again with an empty field.
\<close>

theorem key_validation_all_or_nothing:
  "(ai (initializeAppWithKey (Inr u) key s) = Some key
    \<and> apiKey (initializeAppWithKey (Inr u) key s) = Some key
    \<and> stored_api_key (localStorage (initializeAppWithKey (Inr u) key s)) = Some key
    \<and> statusEl_textContent (initializeAppWithKey (Inr u) key s) = []
    \<and> \<not> isGenerating (initializeAppWithKey (Inr u) key s)
    \<and> \<not> apiKeyModalOverlay_visible (initializeAppWithKey (Inr u) key s))
   \<and> (ai (initializeAppWithKey (Inl e) key s) = ai s
    \<and> apiKey (initializeAppWithKey (Inl e) key s) = None
    \<and> stored_api_key (localStorage (initializeAppWithKey (Inl e) key s)) = None
    \<and> statusEl_textContent (initializeAppWithKey (Inl e) key s)
         = ''API Key is invalid or has insufficient quota. Please try again.''
    \<and> isGenerating (initializeAppWithKey (Inl e) key s)
    \<and> apiKeyModalOverlay_visible (initializeAppWithKey (Inl e) key s)
    \<and> apiKeyInput_value (initializeAppWithKey (Inl e) key s) = [])"
  by (simp add: initializeAppWithKey_def Let_def handleModeChange_def)

theorem key_validation_all_or_nothing_witness:
  "ai (initializeAppWithKey (Inr ()) ''key'' blank_page) = Some ''key''
   \<and> stored_api_key (localStorage (initializeAppWithKey (Inr ()) ''key'' blank_page)) = Some ''key''
   \<and> ai (initializeAppWithKey (Inl quota_error) ''key'' blank_page) = None
   \<and> apiKey (initializeAppWithKey (Inl quota_error) ''key'' blank_page) = None
   \<and> stored_api_key (localStorage (initializeAppWithKey (Inl quota_error) ''key'' blank_page)) = None"
  using key_validation_all_or_nothing [of "()" "''key''" blank_page quota_error]
  by (simp add: blank_page_def)

section \<open>Frames\<close>

lemma olc_refl: "only_log_and_clock s s"
  by (simp add: only_log_and_clock_def)

lemma olc_send: "only_log_and_clock s s' \<Longrightarrow> only_log_and_clock s (send r d s')"
  by (simp add: only_log_and_clock_def send_def)

lemma olc_sel:
  assumes "only_log_and_clock s s'"
  shows "history s' = history s" "localStorage s' = localStorage s"
    "ai s' = ai s" "apiKey s' = apiKey s"
    "videoModeRadio_checked s' = videoModeRadio_checked s"
    "isVideoDailyLimitReached s' = isVideoDailyLimitReached s"
    "promptInput_value s' = promptInput_value s"
    "uploadedImage s' = uploadedImage s"
    "isGeneratingNewPrompts s' = isGeneratingNewPrompts s"
    "apiKeyModalOverlay_visible s' = apiKeyModalOverlay_visible s"
    "isGenerating s' = isGenerating s"
    "statusEl_textContent s' = statusEl_textContent s"
proof -
  from assms have e: "s = s'\<lparr>requests := requests s, now := now s\<rparr>"
    by (simp add: only_log_and_clock_def)
  show "history s' = history s" "localStorage s' = localStorage s"
    "ai s' = ai s" "apiKey s' = apiKey s"
    "videoModeRadio_checked s' = videoModeRadio_checked s"
    "isVideoDailyLimitReached s' = isVideoDailyLimitReached s"
    "promptInput_value s' = promptInput_value s"
    "uploadedImage s' = uploadedImage s"
    "isGeneratingNewPrompts s' = isGeneratingNewPrompts s"
    "apiKeyModalOverlay_visible s' = apiKeyModalOverlay_visible s"
    "isGenerating s' = isGenerating s"
    "statusEl_textContent s' = statusEl_textContent s"
    by (subst e, simp)+
qed

lemma pollLoop_olc:
  "only_log_and_clock s0 s \<Longrightarrow>
   only_log_and_clock s0 (snd (snd (pollLoop env startTime i operation s)))"
proof (induction env startTime i operation s rule: pollLoop.induct)
  case (1 env startTime i operation s)
  have next_ok: "only_log_and_clock s0 (poll_step env i operation s)"
    using "1.prems" by (simp add: poll_step_def olc_send)
  show ?case
    using "1.IH" "1.prems" next_ok
    by (subst pollLoop.simps) (auto split: sum.splits)
qed

text \<open>
  With quiet polls the loop ends without an error and with an operation that is not
  done. Every round takes 10 seconds at least, so the polls it makes are the first six.
\<close>

lemma pollLoop_quiet:
  "\<forall>j<6. quiet (polls env j) \<Longrightarrow> \<not> op_done operation \<Longrightarrow>
   10000 * int i \<le> now s - startTime \<Longrightarrow>
   (case pollLoop env startTime i operation s of
      (r, operation', s') \<Rightarrow> r = None \<and> \<not> op_done operation')"
proof (induction env startTime i operation s rule: pollLoop.induct)
  case (1 env startTime i operation s)
  show ?case
  proof (cases "now s - startTime < TIMEOUT_MS")
    case False
    then show ?thesis
      using "1.prems"(2) by (subst pollLoop.simps) simp
  next
    case True
    then have "i < 6"
      using "1.prems"(3) by (simp add: TIMEOUT_MS_def)
    then have q: "quiet (polls env i)"
      using "1.prems"(1) by blast
    have cond: "\<not> op_done operation \<and> now s - startTime < TIMEOUT_MS"
      using True "1.prems"(2) by simp
    have later: "10000 * int (Suc i) \<le> now (poll_step env i operation s) - startTime"
      using "1.prems"(3) by (simp add: poll_step_def)
    show ?thesis
    proof (cases "poll_result (polls env i)")
      case (Inr operation')
      then have "\<not> op_done operation'"
        using q by (simp add: quiet_def)
      then show ?thesis
        using "1.IH"(2) [OF cond Inr "1.prems"(1) _ later] cond Inr
        by (subst pollLoop.simps) simp
    next
      case (Inl e)
      then have other: "analyzeApiError e \<noteq> GENERAL_QUOTA"
        using q by (simp add: quiet_def)
      show ?thesis
        using "1.IH"(1) [OF cond Inl other "1.prems"(1) "1.prems"(2) later] cond Inl other
        by (subst pollLoop.simps) simp
    qed
  qed
qed

section \<open>What a generation leaves behind\<close>

lemma same_inputs_refl: "same_inputs s s"
  by (simp add: same_inputs_def)

lemma same_inputs_trans: "same_inputs s t \<Longrightarrow> same_inputs t u \<Longrightarrow> same_inputs s u"
  by (simp add: same_inputs_def)

lemma olc_same_inputs: "only_log_and_clock s s' \<Longrightarrow> same_inputs s s'"
  by (simp add: same_inputs_def olc_sel)

lemma after_resetUI_idle: "after_resetUI s \<Longrightarrow> idle s"
proof (induction rule: after_resetUI.induct)
  case (reset t)
  show ?case
    by (auto simp: idle_def promptIsEmpty_def split: option.splits)
next
  case (status s m)
  then show ?case by (simp add: idle_def promptIsEmpty_def)
next
  case (added s k u p)
  then show ?case by (simp add: idle_def promptIsEmpty_def)
qed

lemma beginGeneration_sel [simp]:
  "isGenerating (beginGeneration s)"
  "ai (beginGeneration s) = ai s"
  "apiKey (beginGeneration s) = apiKey s"
  "videoModeRadio_checked (beginGeneration s) = videoModeRadio_checked s"
  "isVideoDailyLimitReached (beginGeneration s) = isVideoDailyLimitReached s"
  "promptInput_value (beginGeneration s) = promptInput_value s"
  "uploadedImage (beginGeneration s) = uploadedImage s"
  "isGeneratingNewPrompts (beginGeneration s) = isGeneratingNewPrompts s"
  "apiKeyModalOverlay_visible (beginGeneration s) = apiKeyModalOverlay_visible s"
  "history (beginGeneration s) = history s"
  "localStorage (beginGeneration s) = localStorage s"
  "requests (beginGeneration s) = requests s"
  "now (beginGeneration s) = now s"
  "videoPlayer_display (beginGeneration s) = DisplayNone"
  by (simp_all add: beginGeneration_def)

lemma beginGeneration_inputs: "same_inputs s (beginGeneration s)"
  by (simp add: same_inputs_def)

subsection \<open>Images\<close>

lemma requestImage_inputs: "same_inputs s (outcome_state (requestImage env fp p s))"
  by (simp add: requestImage_def same_inputs_def Let_def split: sum.split list.split)

lemma requestImage_returned: "requestImage env fp p s = Returned s' \<Longrightarrow> after_resetUI s'"
  by (auto simp: requestImage_def Let_def split: sum.splits list.splits
      intro: after_resetUI.intros)

lemma requestImage_requests:
  "requests (outcome_state (requestImage env fp p s)) =
     requests s @ [GenerateImages ''imagen-3.0-generate-002'' fp 1 ''image/jpeg'' ''16:9'']"
  by (simp add: requestImage_def Let_def split: sum.split list.split)

lemma requestImage_success:
  assumes "images_reply env = Inr (b # bs)"
  shows "thrown (requestImage env fp p s) = None"
    and "statusEl_textContent (outcome_state (requestImage env fp p s))
           = ''Image generated successfully.''"
    and "\<not> isGenerating (outcome_state (requestImage env fp p s))"
    and "history (outcome_state (requestImage env fp p s)) =
           (let h = \<lparr>item_id = now s + int (latency env), item_type = Image,
                       dataUrl = ''data:image/jpeg;base64,'' @ b, prompt = p\<rparr> # history s
            in if length h > 20 then butlast h else h)"
  using assms by (simp_all add: requestImage_def Let_def)

lemma generateImage_inputs: "same_inputs s (outcome_state (generateImage env s))"
proof (cases "uploadedImage s")
  case None
  then show ?thesis
    by (simp add: generateImage_def Let_def requestImage_inputs)
next
  case (Some img)
  let ?s2 = "send (GenerateContentAnalysis (analysisPrompt (promptInput_value s)) img)
               (latency env) (setStatus ''Analyzing image for inspiration...'' s)"
  let ?s3 = "setStatus ''Image analysis failed. Using the original prompt instead.'' ?s2"
  have a: "same_inputs s ?s2" and b: "same_inputs s ?s3"
    by (simp_all add: same_inputs_def)
  show ?thesis
    using Some same_inputs_trans [OF a requestImage_inputs] same_inputs_trans [OF b requestImage_inputs] a
    by (simp add: generateImage_def Let_def split: sum.split)
qed

lemma generateImage_returned: "generateImage env s = Returned s' \<Longrightarrow> after_resetUI s'"
  by (auto simp: generateImage_def Let_def split: option.splits sum.splits if_splits
      dest: requestImage_returned)

subsection \<open>Videos\<close>

lemma finishVideo_inputs: "same_inputs s (outcome_state (finishVideo env p operation s))"
  by (simp add: finishVideo_def same_inputs_def Let_def split: option.split sum.split)

lemma finishVideo_returned: "finishVideo env p operation s = Returned s' \<Longrightarrow> after_resetUI s'"
  by (auto simp: finishVideo_def Let_def split: option.splits sum.splits if_splits
      intro: after_resetUI.intros)

text \<open>The four ways out of \<open>generateVideo\<close>.\<close>

lemma generateVideo_cases:
  fixes env s
  defines "s1 \<equiv> send (GenerateVideos ''veo-2.0-generate-001'' (promptInput_value s) 1 (uploadedImage s))
                   (latency env) (startCountdown s)"
  obtains (refused) e where "videos_reply env = Inl e" "generateVideo env s = Thrown e s1"
  | (escalated) operation0 e operation s2 where "videos_reply env = Inr operation0"
      "pollLoop env (now s1) 0 operation0 s1 = (Some e, operation, s2)"
      "generateVideo env s = Thrown e s2"
  | (timeout) operation0 operation s2 where "videos_reply env = Inr operation0"
      "pollLoop env (now s1) 0 operation0 s1 = (None, operation, s2)" "\<not> op_done operation"
      "generateVideo env s =
         Returned (resetUI ((setStatus timeout_status s2)\<lparr>outputPlaceholder_display := DisplayBlock\<rparr>))"
  | (finished) operation0 operation s2 where "videos_reply env = Inr operation0"
      "pollLoop env (now s1) 0 operation0 s1 = (None, operation, s2)" "op_done operation"
      "generateVideo env s = finishVideo env (promptInput_value s) operation s2"
proof (cases "videos_reply env")
  case (Inl e)
  then show ?thesis
    using refused by (simp add: generateVideo_def Let_def s1_def)
next
  case (Inr operation0)
  obtain r operation s2 where pl: "pollLoop env (now s1) 0 operation0 s1 = (r, operation, s2)"
    by (cases "pollLoop env (now s1) 0 operation0 s1") auto
  have gv: "generateVideo env s =
      (case pollLoop env (now s1) 0 operation0 s1 of
         (Some e, operation, s2) \<Rightarrow> Thrown e s2
       | (None, operation, s2) \<Rightarrow>
           if \<not> op_done operation
           then Returned (resetUI ((setStatus timeout_status s2)
                            \<lparr>outputPlaceholder_display := DisplayBlock\<rparr>))
           else finishVideo env (promptInput_value s) operation s2)"
    using Inr by (simp add: generateVideo_def Let_def s1_def)
  show ?thesis
  proof (cases r)
    case (Some e)
    then show ?thesis
      using escalated [OF Inr] pl gv by simp
  next
    case None
    show ?thesis
    proof (cases "op_done operation")
      case True
      then show ?thesis
        using finished [OF Inr] pl gv None by simp
    next
      case False
      then show ?thesis
        using timeout [OF Inr] pl gv None by simp
    qed
  qed
qed

lemma pollLoop_olc_start:
  "pollLoop env startTime i operation s = (r, operation', s') \<Longrightarrow> only_log_and_clock s s'"
  using pollLoop_olc [OF olc_refl, of s env startTime i operation] by simp

lemma generateVideo_inputs: "same_inputs s (outcome_state (generateVideo env s))"
proof -
  let ?s1 = "send (GenerateVideos ''veo-2.0-generate-001'' (promptInput_value s) 1 (uploadedImage s))
               (latency env) (startCountdown s)"
  have a: "same_inputs s ?s1"
    by (simp add: same_inputs_def)
  show ?thesis
  proof (cases env s rule: generateVideo_cases)
    case (refused e)
    then show ?thesis using a by simp
  next
    case (escalated operation0 e operation s2)
    then show ?thesis
      using same_inputs_trans [OF a olc_same_inputs [OF pollLoop_olc_start]] by simp
  next
    case (timeout operation0 operation s2)
    have "same_inputs s s2"
      using same_inputs_trans [OF a olc_same_inputs [OF pollLoop_olc_start]] timeout(2) by simp
    then show ?thesis
      using timeout(4) by (simp add: same_inputs_def)
  next
    case (finished operation0 operation s2)
    have "same_inputs s s2"
      using same_inputs_trans [OF a olc_same_inputs [OF pollLoop_olc_start]] finished(2) by simp
    then show ?thesis
      using finished(4) same_inputs_trans finishVideo_inputs by simp
  qed
qed

lemma generateVideo_returned: "generateVideo env s = Returned s' \<Longrightarrow> after_resetUI s'"
proof (cases env s rule: generateVideo_cases)
  case (timeout operation0 operation s2)
  assume "generateVideo env s = Returned s'"
  then show ?thesis
    using timeout(4) by (auto intro: after_resetUI.reset)
next
  case (finished operation0 operation s2)
  assume "generateVideo env s = Returned s'"
  then show ?thesis
    using finished(4) finishVideo_returned by simp
qed simp_all

subsection \<open>The handler\<close>

lemma generate_inputs: "same_inputs s (outcome_state (generate env s))"
  by (simp add: generate_def generateVideo_inputs generateImage_inputs)

lemma generate_returned: "generate env s = Returned s' \<Longrightarrow> after_resetUI s'"
  by (auto simp: generate_def split: if_splits dest: generateVideo_returned generateImage_returned)

lemma handleGenerateError_sel [simp]:
  "isVideoDailyLimitReached (handleGenerateError e s)
     = (analyzeApiError e = VIDEO_DAILY_LIMIT \<or> isVideoDailyLimitReached s)"
  "ai (handleGenerateError e s) = ai s"
  "apiKey (handleGenerateError e s) = apiKey s"
  "videoModeRadio_checked (handleGenerateError e s) = videoModeRadio_checked s"
  "promptInput_value (handleGenerateError e s) = promptInput_value s"
  "uploadedImage (handleGenerateError e s) = uploadedImage s"
  "isGeneratingNewPrompts (handleGenerateError e s) = isGeneratingNewPrompts s"
  "apiKeyModalOverlay_visible (handleGenerateError e s) = apiKeyModalOverlay_visible s"
  "history (handleGenerateError e s) = history s"
  "localStorage (handleGenerateError e s) = localStorage s"
  "requests (handleGenerateError e s) = requests s"
  by (simp_all add: handleGenerateError_def Let_def)

lemma handleGenerateError_after: "after_resetUI (handleGenerateError e s)"
  by (simp add: handleGenerateError_def Let_def after_resetUI.reset)

lemma handleGenerateClick_run:
  assumes "\<not> isGenerating s" "\<not> promptIsEmpty s" "ai s \<noteq> None"
  shows "handleGenerateClick env s =
     (case generate env (beginGeneration s) of
        Returned s' \<Rightarrow> s'
      | Thrown error s' \<Rightarrow> handleGenerateError error s')"
  using assms by (auto simp: handleGenerateClick_def promptIsEmpty_def)

lemma handleGenerateClick_after:
  assumes "\<not> isGenerating s" "\<not> promptIsEmpty s" "ai s \<noteq> None"
  shows "after_resetUI (handleGenerateClick env s)"
  using generate_returned [of env "beginGeneration s"]
  by (simp add: handleGenerateClick_run [OF assms] handleGenerateError_after split: outcome.split)

lemma handleGenerateClick_keeps:
  "ai (handleGenerateClick env s) = ai s"
  "apiKey (handleGenerateClick env s) = apiKey s"
  "videoModeRadio_checked (handleGenerateClick env s) = videoModeRadio_checked s"
  "promptInput_value (handleGenerateClick env s) = promptInput_value s"
  "uploadedImage (handleGenerateClick env s) = uploadedImage s"
  "isGeneratingNewPrompts (handleGenerateClick env s) = isGeneratingNewPrompts s"
  "apiKeyModalOverlay_visible (handleGenerateClick env s) = apiKeyModalOverlay_visible s"
  "isVideoDailyLimitReached s \<Longrightarrow> isVideoDailyLimitReached (handleGenerateClick env s)"
  using same_inputs_trans [OF beginGeneration_inputs generate_inputs, of s env]
  by (auto simp: handleGenerateClick_def same_inputs_def split: outcome.split)


section \<open>Terminal outcomes\<close>

text \<open>
  C3, as the code has it. A generation that has passed the guard ends in a state that
  \<open>resetUI\<close> has produced: the busy flag is down, the mode switches, the upload button,
  the prompt field and the example list are enabled, the refresh button is disabled only
  while example prompts are being fetched, and the generate button is disabled only when
  video mode is selected and the daily limit has been reached.
\<close>

theorem generation_ends_reset:
  assumes "\<not> isGenerating s" "\<not> promptIsEmpty s" "ai s \<noteq> None"
  shows "after_resetUI (handleGenerateClick env s)
    \<and> \<not> isGenerating (handleGenerateClick env s)
    \<and> \<not> imageModeRadio_disabled (handleGenerateClick env s)
    \<and> \<not> videoModeRadio_disabled (handleGenerateClick env s)
    \<and> \<not> uploadButton_disabled (handleGenerateClick env s)
    \<and> \<not> promptInput_disabled (handleGenerateClick env s)
    \<and> \<not> examplePromptsList_disabled (handleGenerateClick env s)
    \<and> refreshButton_disabled (handleGenerateClick env s) = isGeneratingNewPrompts s
    \<and> generateButton_disabled (handleGenerateClick env s)
        = (videoModeRadio_checked s \<and> isVideoDailyLimitReached (handleGenerateClick env s))
    \<and> queueStatusContainer_display (handleGenerateClick env s) = DisplayNone
    \<and> countdownInterval (handleGenerateClick env s) \<in> {None, Some 0}"
proof -
  let ?s' = "handleGenerateClick env s"
  have after: "after_resetUI ?s'"
    using assms by (rule handleGenerateClick_after)
  then have i: "idle ?s'"
    by (rule after_resetUI_idle)
  have "promptIsEmpty ?s' = promptIsEmpty s"
    by (simp add: promptIsEmpty_def handleGenerateClick_keeps)
  then show ?thesis
    using after i assms by (simp add: idle_def handleGenerateClick_keeps)
qed

theorem generation_ends_reset_witness:
  "\<not> isGenerating video_page \<and> \<not> promptIsEmpty video_page \<and> ai video_page \<noteq> None
   \<and> after_resetUI (handleGenerateClick calm_env video_page)
   \<and> \<not> isGenerating (handleGenerateClick calm_env video_page)
   \<and> \<not> promptInput_disabled (handleGenerateClick calm_env video_page)"
proof -
  have a: "ai video_page \<noteq> None"
    by (simp add: video_page_facts)
  show ?thesis
    using a video_page_facts(1,2) generation_ends_reset [OF video_page_facts(1,2) a, of calm_env]
    by simp
qed

text \<open>
  The claim C3 as it is written fails: after a generation in video mode that fails for
  the daily limit, the generate button, which the busy flag disables, stays disabled.
\<close>

theorem generation_ends_reset_counterexample:
  "\<not> isGenerating video_page \<and> \<not> promptIsEmpty video_page \<and> ai video_page = Some ''key''
   \<and> \<not> isGenerating (handleGenerateClick limit_env video_page)
   \<and> \<not> controls_enabled (handleGenerateClick limit_env video_page)"
proof -
  have "generateButton_disabled (handleGenerateClick limit_env video_page)"
    by code_simp
  then show ?thesis
    using after_resetUI_idle [OF handleGenerateClick_after [of video_page limit_env]]
    by (simp add: video_page_facts controls_enabled_def idle_def)
qed

section \<open>Video polling\<close>

text \<open>
  C6. A video generation is started with the daily limit not reached. When the video
  request gives an operation that is not done, and none of the polls (there are six at
  most, 10 seconds or more apart) finds it done or fails with a quota error, the
  generation returns without an error, the status is that of the timeout, the history and
  the store are what they were, and the page is back in its idle state.
\<close>

theorem video_polling_times_out:
  assumes "\<not> isGenerating s" "\<not> promptIsEmpty s" "ai s \<noteq> None"
    and "videoModeRadio_checked s" "\<not> isVideoDailyLimitReached s"
    and "videos_reply env = Inr operation0" "\<not> op_done operation0"
    and "\<forall>i<6. quiet (polls env i)"
  shows "thrown (generate env (beginGeneration s)) = None
    \<and> statusEl_textContent (handleGenerateClick env s) = timeout_status
    \<and> history (handleGenerateClick env s) = history s
    \<and> localStorage (handleGenerateClick env s) = localStorage s
    \<and> outputPlaceholder_display (handleGenerateClick env s) = DisplayBlock
    \<and> videoPlayer_display (handleGenerateClick env s) = DisplayNone
    \<and> \<not> isGenerating (handleGenerateClick env s)
    \<and> idle (handleGenerateClick env s)"
proof -
  let ?b = "beginGeneration s"
  let ?s1 = "send (GenerateVideos ''veo-2.0-generate-001'' (promptInput_value ?b) 1 (uploadedImage ?b))
               (latency env) (startCountdown ?b)"
  obtain r operation s2 where pl: "pollLoop env (now ?s1) 0 operation0 ?s1 = (r, operation, s2)"
    by (cases "pollLoop env (now ?s1) 0 operation0 ?s1") auto
  have "r = None \<and> \<not> op_done operation"
    using pollLoop_quiet [OF assms(8) assms(7), of 0 ?s1 "now ?s1"] pl by simp
  then have r: "r = None" and nd: "\<not> op_done operation"
    by simp_all
  have olc: "only_log_and_clock ?s1 s2"
    using pl by (rule pollLoop_olc_start)
  have gen: "generate env ?b =
      Returned (resetUI ((setStatus timeout_status s2)\<lparr>outputPlaceholder_display := DisplayBlock\<rparr>))"
    using assms(4,6) pl r nd by (simp add: generate_def generateVideo_def Let_def)
  have click: "handleGenerateClick env s =
      resetUI ((setStatus timeout_status s2)\<lparr>outputPlaceholder_display := DisplayBlock\<rparr>)"
    using gen by (simp add: handleGenerateClick_run [OF assms(1-3)])
  have s2: "history s2 = history s" "localStorage s2 = localStorage s"
    "isVideoDailyLimitReached s2 = isVideoDailyLimitReached s"
    using olc_sel [OF olc] by simp_all
  have vp: "videoPlayer_display s2 = DisplayNone"
  proof -
    from olc have e: "?s1 = s2\<lparr>requests := requests ?s1, now := now ?s1\<rparr>"
      by (simp add: only_log_and_clock_def)
    have "videoPlayer_display ?s1 = DisplayNone" by simp
    then show ?thesis by (subst (asm) e) simp
  qed
  have "idle (handleGenerateClick env s)"
    using after_resetUI_idle [OF handleGenerateClick_after [OF assms(1-3)]] .
  then show ?thesis
    using gen click s2 vp assms(5) by simp
qed

theorem video_polling_times_out_witness:
  "\<not> isGenerating video_page \<and> \<not> promptIsEmpty video_page \<and> ai video_page \<noteq> None
   \<and> videoModeRadio_checked video_page \<and> \<not> isVideoDailyLimitReached video_page
   \<and> videos_reply calm_env = Inr an_operation \<and> \<not> op_done an_operation
   \<and> statusEl_textContent (handleGenerateClick calm_env video_page) = timeout_status
   \<and> history (handleGenerateClick calm_env video_page) = history video_page"
proof -
  have a: "ai video_page \<noteq> None"
    by (simp add: video_page_facts)
  have v: "videos_reply calm_env = Inr an_operation"
    by (simp add: calm_env_def)
  have d: "\<not> op_done an_operation"
    by (simp add: an_operation_def)
  show ?thesis
    using a v d video_page_facts
      video_polling_times_out [OF video_page_facts(1,2) a video_page_facts(4,5) v d calm_env_quiet]
    by simp
qed


section \<open>The image path\<close>

lemma generateImage_plain:
  "uploadedImage s = None \<Longrightarrow>
   generateImage env s = requestImage env (promptInput_value s) (promptInput_value s) s"
  by (simp add: generateImage_def Let_def)

lemma generateImage_fallback:
  assumes "uploadedImage s = Some img" "analysis_reply env = Inl e"
    and "analyzeApiError e \<noteq> GENERAL_QUOTA"
  shows "generateImage env s =
     requestImage env (promptInput_value s) (promptInput_value s)
       (setStatus ''Image analysis failed. Using the original prompt instead.''
          (send (GenerateContentAnalysis (analysisPrompt (promptInput_value s)) img) (latency env)
             (setStatus ''Analyzing image for inspiration...'' s)))"
  using assms by (simp add: generateImage_def Let_def)

lemma generateImage_quota:
  assumes "uploadedImage s = Some img" "analysis_reply env = Inl e"
    and "analyzeApiError e = GENERAL_QUOTA"
  shows "generateImage env s =
     Thrown e (send (GenerateContentAnalysis (analysisPrompt (promptInput_value s)) img) (latency env)
                 (setStatus ''Analyzing image for inspiration...'' s))"
  using assms by (simp add: generateImage_def Let_def)

text \<open>
  C7. With an attachment and a failing analysis request: when the error is not a general
  quota error, the image request follows and carries the prompt of the user, and the
  outcome is that of the image request alone (with one image in the response the
  function returns and reports success); when the error is a general quota error, it is
  thrown on with the analysis request as the only one made, and the handler, reached
  through the guard in image mode, reports the exceeded quota.
\<close>

theorem analysis_failure_falls_back_or_propagates:
  assumes "uploadedImage s = Some img" and "analysis_reply env = Inl e"
  shows "(analyzeApiError e \<noteq> GENERAL_QUOTA \<longrightarrow>
            requests (outcome_state (generateImage env s)) =
              requests s @
                [GenerateContentAnalysis (analysisPrompt (promptInput_value s)) img,
                 GenerateImages ''imagen-3.0-generate-002'' (promptInput_value s) 1
                   ''image/jpeg'' ''16:9'']
            \<and> (\<forall>b bs. images_reply env = Inr (b # bs) \<longrightarrow>
                  thrown (generateImage env s) = None
                  \<and> statusEl_textContent (outcome_state (generateImage env s))
                      = ''Image generated successfully.''
                  \<and> prompt (hd (history (outcome_state (generateImage env s))))
                      = promptInput_value s))
    \<and> (analyzeApiError e = GENERAL_QUOTA \<longrightarrow>
            thrown (generateImage env s) = Some e
            \<and> requests (outcome_state (generateImage env s)) =
                requests s @ [GenerateContentAnalysis (analysisPrompt (promptInput_value s)) img]
            \<and> (\<not> isGenerating s \<and> \<not> promptIsEmpty s \<and> ai s \<noteq> None
                 \<and> \<not> videoModeRadio_checked s \<longrightarrow>
                 requests (handleGenerateClick env s) =
                   requests s @ [GenerateContentAnalysis (analysisPrompt (promptInput_value s)) img]
                 \<and> statusEl_textContent (handleGenerateClick env s) =
                     ''You've exceeded your API usage quota. Please wait and try again later, or check your Google AI Studio plan and billing details.''
                 \<and> history (handleGenerateClick env s) = history s))"
proof (cases "analyzeApiError e = GENERAL_QUOTA")
  case False
  let ?s2 = "setStatus ''Image analysis failed. Using the original prompt instead.''
          (send (GenerateContentAnalysis (analysisPrompt (promptInput_value s)) img) (latency env)
             (setStatus ''Analyzing image for inspiration...'' s))"
  have g: "generateImage env s = requestImage env (promptInput_value s) (promptInput_value s) ?s2"
    using assms False by (rule generateImage_fallback)
  have req: "requests (outcome_state (generateImage env s)) =
      requests s @
        [GenerateContentAnalysis (analysisPrompt (promptInput_value s)) img,
         GenerateImages ''imagen-3.0-generate-002'' (promptInput_value s) 1 ''image/jpeg'' ''16:9'']"
    by (simp add: g requestImage_requests)
  have ok: "thrown (generateImage env s) = None
      \<and> statusEl_textContent (outcome_state (generateImage env s)) = ''Image generated successfully.''
      \<and> prompt (hd (history (outcome_state (generateImage env s)))) = promptInput_value s"
    if "images_reply env = Inr (b # bs)" for b bs
    using requestImage_success [OF that, of "promptInput_value s" "promptInput_value s" ?s2]
    by (simp add: g Let_def)
  show ?thesis
    using False req ok by blast
next
  case True
  let ?s2 = "send (GenerateContentAnalysis (analysisPrompt (promptInput_value s)) img) (latency env)
                 (setStatus ''Analyzing image for inspiration...'' s)"
  have g: "generateImage env s = Thrown e ?s2"
    using assms True by (rule generateImage_quota)
  have top: "requests (handleGenerateClick env s) =
        requests s @ [GenerateContentAnalysis (analysisPrompt (promptInput_value s)) img]
      \<and> statusEl_textContent (handleGenerateClick env s) =
          ''You've exceeded your API usage quota. Please wait and try again later, or check your Google AI Studio plan and billing details.''
      \<and> history (handleGenerateClick env s) = history s"
    if guard: "\<not> isGenerating s" "\<not> promptIsEmpty s" "ai s \<noteq> None" and image: "\<not> videoModeRadio_checked s"
  proof -
    have "generate env (beginGeneration s) =
        Thrown e (send (GenerateContentAnalysis (analysisPrompt (promptInput_value s)) img) (latency env)
                 (setStatus ''Analyzing image for inspiration...'' (beginGeneration s)))"
      using assms(1,2) True image by (simp add: generate_def generateImage_def Let_def)
    then show ?thesis
      using image True
      by (simp add: handleGenerateClick_run [OF guard] handleGenerateError_def Let_def)
  qed
  show ?thesis
    using True top by (simp add: g)
qed

theorem analysis_failure_falls_back_or_propagates_witness:
  "uploadedImage (ready_page\<lparr>uploadedImage := Some \<lparr>data = ''QUJD'', mimeType = ''image/png''\<rparr>\<rparr>)
     = Some \<lparr>data = ''QUJD'', mimeType = ''image/png''\<rparr>
   \<and> analysis_reply calm_env = Inl js_Error
   \<and> analyzeApiError js_Error \<noteq> GENERAL_QUOTA
   \<and> images_reply calm_env = Inr [''QUJD'']
   \<and> thrown (generateImage calm_env
        (ready_page\<lparr>uploadedImage := Some \<lparr>data = ''QUJD'', mimeType = ''image/png''\<rparr>\<rparr>)) = None
   \<and> analysis_reply (calm_env\<lparr>analysis_reply := Inl quota_error\<rparr>) = Inl quota_error
   \<and> analyzeApiError quota_error = GENERAL_QUOTA
   \<and> thrown (generateImage (calm_env\<lparr>analysis_reply := Inl quota_error\<rparr>)
        (ready_page\<lparr>uploadedImage := Some \<lparr>data = ''QUJD'', mimeType = ''image/png''\<rparr>\<rparr>))
       = Some quota_error"
proof -
  let ?img = "\<lparr>data = ''QUJD'', mimeType = ''image/png''\<rparr>"
  let ?s = "ready_page\<lparr>uploadedImage := Some ?img\<rparr>"
  have u: "uploadedImage ?s = Some ?img" by simp
  have a1: "analysis_reply calm_env = Inl js_Error" by (simp add: calm_env_def)
  have a2: "analysis_reply (calm_env\<lparr>analysis_reply := Inl quota_error\<rparr>) = Inl quota_error" by simp
  have c1: "analyzeApiError js_Error \<noteq> GENERAL_QUOTA" by code_simp
  have c2: "analyzeApiError quota_error = GENERAL_QUOTA" by code_simp
  have i: "images_reply calm_env = Inr [''QUJD'']" by (simp add: calm_env_def)
  show ?thesis
    using u a1 a2 c1 c2 i
      analysis_failure_falls_back_or_propagates [OF u a1]
      analysis_failure_falls_back_or_propagates [OF u a2]
    by simp
qed

text \<open>
  C8. With a client, the busy flag down, a prompt that is not empty, image mode and no
  attachment, a click on generate adds one request to the log, the image request with
  the prompt as typed and the fixed parameters. When the response holds an image, one
  item is put in front of the history, an image under that prompt (the last item is
  dropped when that makes more than 20), the status reports success and the busy flag is
  down.
\<close>

theorem image_generation_end_to_end:
  assumes "ai s = Some key" "\<not> isGenerating s" "\<not> promptIsEmpty s"
    and "\<not> videoModeRadio_checked s" "uploadedImage s = None"
  shows "requests (handleGenerateClick env s) =
      requests s @
        [GenerateImages ''imagen-3.0-generate-002'' (promptInput_value s) 1 ''image/jpeg'' ''16:9'']
    \<and> (\<forall>b bs. images_reply env = Inr (b # bs) \<longrightarrow>
          history (handleGenerateClick env s) =
            (let h = \<lparr>item_id = now s + int (latency env), item_type = Image,
                       dataUrl = ''data:image/jpeg;base64,'' @ b,
                       prompt = promptInput_value s\<rparr> # history s
             in if length h > 20 then butlast h else h)
          \<and> statusEl_textContent (handleGenerateClick env s) = ''Image generated successfully.''
          \<and> \<not> isGenerating (handleGenerateClick env s))"
proof -
  let ?b = "beginGeneration s"
  let ?p = "promptInput_value s"
  have guard: "\<not> isGenerating s" "\<not> promptIsEmpty s" "ai s \<noteq> None"
    using assms by simp_all
  have g: "generate env ?b = requestImage env ?p ?p ?b"
    using assms(4,5) by (simp add: generate_def generateImage_plain)
  have click: "handleGenerateClick env s =
      (case requestImage env ?p ?p ?b of
         Returned s' \<Rightarrow> s'
       | Thrown error s' \<Rightarrow> handleGenerateError error s')"
    by (simp add: handleGenerateClick_run [OF guard] g)
  have req: "requests (handleGenerateClick env s) =
      requests s @ [GenerateImages ''imagen-3.0-generate-002'' ?p 1 ''image/jpeg'' ''16:9'']"
    using requestImage_requests [of env ?p ?p ?b]
    by (simp add: click split: outcome.split) auto
  have ok: "history (handleGenerateClick env s) =
            (let h = \<lparr>item_id = now s + int (latency env), item_type = Image,
                       dataUrl = ''data:image/jpeg;base64,'' @ b, prompt = ?p\<rparr> # history s
             in if length h > 20 then butlast h else h)
          \<and> statusEl_textContent (handleGenerateClick env s) = ''Image generated successfully.''
          \<and> \<not> isGenerating (handleGenerateClick env s)"
    if "images_reply env = Inr (b # bs)" for b bs
    using requestImage_success [OF that, of ?p ?p ?b]
    by (simp add: click split: outcome.split) auto
  show ?thesis
    using req ok by blast
qed

theorem image_generation_end_to_end_witness:
  "ai ready_page = Some ''key'' \<and> \<not> isGenerating ready_page \<and> \<not> promptIsEmpty ready_page
   \<and> \<not> videoModeRadio_checked ready_page \<and> uploadedImage ready_page = None
   \<and> images_reply calm_env = Inr [''QUJD'']
   \<and> requests (handleGenerateClick calm_env ready_page) =
       [GenerateContentTest ''key'',
        GenerateImages ''imagen-3.0-generate-002''
          ''A cinematic shot of an astronaut riding a horse on Mars'' 1 ''image/jpeg'' ''16:9'']
   \<and> history (handleGenerateClick calm_env ready_page) =
       [\<lparr>item_id = 0, item_type = Image, dataUrl = ''data:image/jpeg;base64,QUJD'',
         prompt = ''A cinematic shot of an astronaut riding a horse on Mars''\<rparr>]
   \<and> statusEl_textContent (handleGenerateClick calm_env ready_page) = ''Image generated successfully.''
   \<and> \<not> isGenerating (handleGenerateClick calm_env ready_page)"
proof -
  have i: "images_reply calm_env = Inr [''QUJD'']" and l: "latency calm_env = 0"
    by (simp_all add: calm_env_def)
  show ?thesis
    using i l ready_page_facts
      image_generation_end_to_end [OF ready_page_facts(3,1,2,4,5), of calm_env]
    by simp
qed


section \<open>The daily limit\<close>

lemma updateUIState_consistent:
  assumes "ai t \<noteq> None \<longrightarrow> \<not> apiKeyModalOverlay_visible t \<and> \<not> isGenerating t"
    and "isVideoDailyLimitReached t \<longrightarrow> ai t \<noteq> None"
  shows "consistent (updateUIState t)"
  using assms by (auto simp: consistent_def daily_limit_status_def)

lemma consistent_parts:
  assumes "consistent s"
  shows "ai s \<noteq> None \<longrightarrow> \<not> apiKeyModalOverlay_visible s \<and> \<not> isGenerating s"
    and "isVideoDailyLimitReached s \<longrightarrow> ai s \<noteq> None"
  using assms by (simp_all add: consistent_def)

lemma loadHistory_sel [simp]:
  "ai (loadHistory s) = ai s"
  "isVideoDailyLimitReached (loadHistory s) = isVideoDailyLimitReached s"
  "localStorage (loadHistory s) = localStorage s"
  "apiKeyModalOverlay_visible (loadHistory s) = apiKeyModalOverlay_visible s"
  "isGenerating (loadHistory s) = isGenerating s"
  by (simp_all add: loadHistory_def split: option.split)

lemma initializeAppWithKey_flag [simp]:
  "isVideoDailyLimitReached (initializeAppWithKey probe key s) = isVideoDailyLimitReached s"
  by (simp add: initializeAppWithKey_def Let_def handleModeChange_def split: sum.split)

lemma initializeAppWithKey_consistent:
  assumes "ai s = None" "\<not> isVideoDailyLimitReached s"
  shows "consistent (initializeAppWithKey probe key s)"
proof (cases probe)
  case (Inl e)
  then show ?thesis
    using assms by (simp add: consistent_def initializeAppWithKey_def Let_def)
next
  case (Inr u)
  then show ?thesis
    using assms by (simp add: consistent_def initializeAppWithKey_def Let_def handleModeChange_def)
qed

lemma handleSaveApiKey_flag [simp]:
  "isVideoDailyLimitReached (handleSaveApiKey probe s) = isVideoDailyLimitReached s"
  by (simp add: handleSaveApiKey_def Let_def)

lemma handleSaveApiKey_consistent:
  assumes "consistent s" "apiKeyModalOverlay_visible s"
  shows "consistent (handleSaveApiKey probe (s\<lparr>apiKeyInput_value := x\<rparr>))"
proof -
  have none: "ai s = None" and low: "\<not> isVideoDailyLimitReached s"
    using assms by (auto simp: consistent_def)
  let ?s1 = "s\<lparr>apiKeyInput_value := x, saveApiKeyButton_disabled := True,
               saveApiKeyButton_textContent := ''Verifying...''\<rparr>"
  have c: "consistent (initializeAppWithKey probe k ?s1)" for k
    using none low by (simp add: initializeAppWithKey_consistent)
  have c0: "consistent (s\<lparr>apiKeyInput_value := x\<rparr>)"
    using assms(1) by (simp add: consistent_def)
  have button: "consistent (t\<lparr>saveApiKeyButton_disabled := b, saveApiKeyButton_textContent := l\<rparr>)
      = consistent t" for t b l
    by (simp add: consistent_def)
  show ?thesis
  proof (cases "trim x = []")
    case True
    then show ?thesis
      using c0 by (simp add: handleSaveApiKey_def)
  next
    case False
    then show ?thesis
      using c [of "trim x"] by (simp add: handleSaveApiKey_def Let_def button)
  qed
qed

lemma getNewExamplePrompts_flag [simp]:
  "isVideoDailyLimitReached (getNewExamplePrompts reply s) = isVideoDailyLimitReached s"
  by (simp add: getNewExamplePrompts_def Let_def split: sum.split)

lemma getNewExamplePrompts_consistent:
  assumes "consistent s"
  shows "consistent (getNewExamplePrompts reply s)"
proof (cases "ai s = None")
  case True
  then show ?thesis
    using assms by (simp add: getNewExamplePrompts_def)
next
  case False
  define t where "t =
     (case reply of
        Inr prompts \<Rightarrow>
          if prompts \<noteq> []
          then setStatus []
                 (populateExamplePrompts
                    ((send GenerateContentPrompts 0
                        (updateUIState (s\<lparr>isGeneratingNewPrompts := True\<rparr>)))
                     \<lparr>examplePrompts := prompts\<rparr>))
          else send GenerateContentPrompts 0 (updateUIState (s\<lparr>isGeneratingNewPrompts := True\<rparr>))
      | Inl error \<Rightarrow>
          if analyzeApiError error = GENERAL_QUOTA
          then setStatus ''Could not fetch new examples due to API quota limits.''
                 (send GenerateContentPrompts 0 (updateUIState (s\<lparr>isGeneratingNewPrompts := True\<rparr>)))
          else setStatus ''Could not fetch new examples at this time.''
                 (send GenerateContentPrompts 0 (updateUIState (s\<lparr>isGeneratingNewPrompts := True\<rparr>))))"
  have sel: "ai t = ai s" "apiKeyModalOverlay_visible t = apiKeyModalOverlay_visible s"
    "isGenerating t = isGenerating s" "isVideoDailyLimitReached t = isVideoDailyLimitReached s"
    by (simp_all add: t_def split: sum.split)
  have "getNewExamplePrompts reply s = updateUIState (t\<lparr>isGeneratingNewPrompts := False\<rparr>)"
    using False by (auto simp: getNewExamplePrompts_def Let_def t_def)
  moreover have "consistent (updateUIState (t\<lparr>isGeneratingNewPrompts := False\<rparr>))"
    using consistent_parts [OF assms] sel by (intro updateUIState_consistent) simp_all
  ultimately show ?thesis
    by simp
qed

lemma handleGenerateClick_consistent:
  assumes "consistent s" "\<not> generateButton_disabled s"
  shows "consistent (handleGenerateClick env s)"
proof (cases "isGenerating s \<or> promptIsEmpty s \<or> ai s = None")
  case True
  then show ?thesis
    using assms(1) by (auto simp: handleGenerateClick_def promptIsEmpty_def)
next
  case False
  then have guard: "\<not> isGenerating s" "\<not> promptIsEmpty s" "ai s \<noteq> None"
    by simp_all
  let ?s' = "handleGenerateClick env s"
  have i: "idle ?s'"
    using after_resetUI_idle [OF handleGenerateClick_after [OF guard]] .
  have closed: "\<not> apiKeyModalOverlay_visible s"
    using assms(1) guard(3) by (simp add: consistent_def)
  have free: "\<not> (isVideoDailyLimitReached s \<and> videoModeRadio_checked s)"
    using assms by (auto simp: consistent_def)
  have st: "statusEl_textContent ?s' = daily_limit_status"
    if "isVideoDailyLimitReached ?s'" "videoModeRadio_checked ?s'"
  proof (cases "generate env (beginGeneration s)")
    case (Returned t)
    have "same_inputs s t"
      using same_inputs_trans [OF beginGeneration_inputs generate_inputs, of s env] Returned by simp
    then show ?thesis
      using that free Returned by (simp add: handleGenerateClick_run [OF guard] same_inputs_def)
  next
    case (Thrown e t)
    have "same_inputs s t"
      using same_inputs_trans [OF beginGeneration_inputs generate_inputs, of s env] Thrown by simp
    then have "ai t \<noteq> None"
      using guard(3) by (simp add: same_inputs_def)
    then show ?thesis
      using that Thrown
      by (simp add: handleGenerateClick_run [OF guard] handleGenerateError_def Let_def
          daily_limit_status_def split: if_splits)
  qed
  show ?thesis
    using i st guard(3) closed
    by (auto simp: consistent_def idle_def handleGenerateClick_keeps)
qed

lemma step_consistent: "consistent s \<Longrightarrow> consistent (step ev s)"
proof (cases ev)
  case (PromptInput x)
  assume c: "consistent s"
  show ?thesis
    using c consistent_parts [OF c]
    by (simp add: PromptInput) (rule impI, rule updateUIState_consistent; simp)
next
  case (ExampleClick i)
  assume c: "consistent s"
  show ?thesis
    using c consistent_parts [OF c]
    by (simp add: ExampleClick) (rule impI, rule updateUIState_consistent; simp)
next
  case (ModeChange video)
  assume c: "consistent s"
  show ?thesis
    using c consistent_parts [OF c]
    by (simp add: ModeChange handleModeChange_def del: split_paired_All)
       (intro impI conjI; rule updateUIState_consistent; simp)
next
  case (FileUpload f)
  assume c: "consistent s"
  show ?thesis
    using c consistent_parts [OF c]
    by (cases f; simp add: FileUpload handleFileUpload_def)
       (rule impI, rule updateUIState_consistent; simp)
next
  case RemoveImage
  assume c: "consistent s"
  show ?thesis
    using consistent_parts [OF c]
    by (simp add: RemoveImage removeUploadedImage_def) (rule updateUIState_consistent; simp)
next
  case (RefreshClick reply)
  assume "consistent s"
  then show ?thesis
    by (simp add: RefreshClick getNewExamplePrompts_consistent)
next
  case (SaveApiKey x probe)
  assume "consistent s"
  then show ?thesis
    by (simp add: SaveApiKey handleSaveApiKey_consistent)
next
  case (GenerateClick env)
  assume "consistent s"
  then show ?thesis
    by (simp add: GenerateClick handleGenerateClick_consistent)
qed

lemma step_flag: "isVideoDailyLimitReached s \<Longrightarrow> isVideoDailyLimitReached (step ev s)"
  by (cases ev)
     (auto simp: handleModeChange_def handleFileUpload_def removeUploadedImage_def
        handleGenerateClick_keeps split: option.splits)

lemma run_consistent: "consistent s \<Longrightarrow> consistent (run evs s)"
  by (induction evs arbitrary: s) (simp_all add: step_consistent)

lemma run_flag: "isVideoDailyLimitReached s \<Longrightarrow> isVideoDailyLimitReached (run evs s)"
  by (induction evs arbitrary: s) (simp_all add: step_flag)

lemma init_consistent: "consistent (init probe (module_load page))"
proof -
  let ?s1 = "loadHistory (updateUIState ((module_load page)\<lparr>isGenerating := True\<rparr>))"
  have a: "ai ?s1 = None" and f: "\<not> isVideoDailyLimitReached ?s1"
    by (simp_all add: module_load_def)
  have "consistent (?s1\<lparr>apiKeyModalOverlay_visible := True\<rparr>)"
    using a f by (simp add: consistent_def)
  then show ?thesis
    using initializeAppWithKey_consistent [OF a f]
    by (simp add: init_def Let_def split: option.split)
qed

lemma session_consistent: "consistent (session page probe evs)"
  by (simp add: session_def run_consistent init_consistent)

lemma handleGenerateClick_sets_flag:
  assumes "\<not> isGenerating s" "\<not> promptIsEmpty s" "ai s \<noteq> None"
    and "thrown (generate env (beginGeneration s)) = Some e"
    and "analyzeApiError e = VIDEO_DAILY_LIMIT"
  shows "isVideoDailyLimitReached (handleGenerateClick env s)"
  using assms(4,5)
  by (cases "generate env (beginGeneration s)") (simp_all add: handleGenerateClick_run [OF assms(1-3)])

text \<open>
  C4. An error whose serialisation contains the phrase of the daily limit is classified
  as the daily limit, and when the generation started by a click throws it, the handler
  sets the flag. In a session, whatever its events, once the flag is set it stays set
  through all later events, and in every later state with video mode selected the status
  is the message of the daily limit and a click on the generate button changes nothing,
  so that no request is made.
\<close>

theorem daily_limit_blocks_video:
  "(str_includes (stringified e) ''limited free generations per day'' \<longrightarrow>
      analyzeApiError e = VIDEO_DAILY_LIMIT
      \<and> (\<not> isGenerating s \<and> \<not> promptIsEmpty s \<and> ai s \<noteq> None
           \<and> thrown (generate env0 (beginGeneration s)) = Some e \<longrightarrow>
         isVideoDailyLimitReached (handleGenerateClick env0 s)))
   \<and> (isVideoDailyLimitReached (session page probe evs) \<longrightarrow>
      isVideoDailyLimitReached (run evs' (session page probe evs))
      \<and> (videoModeRadio_checked (run evs' (session page probe evs)) \<longrightarrow>
           statusEl_textContent (run evs' (session page probe evs)) = daily_limit_status
           \<and> step (GenerateClick env) (run evs' (session page probe evs))
               = run evs' (session page probe evs)
           \<and> requests (step (GenerateClick env) (run evs' (session page probe evs)))
               = requests (run evs' (session page probe evs))))"
proof -
  let ?s = "session page probe evs"
  let ?t = "run evs' ?s"
  have c: "consistent ?t"
    by (simp add: run_consistent session_consistent)
  have blocked: "statusEl_textContent ?t = daily_limit_status \<and> step (GenerateClick env) ?t = ?t"
    if "isVideoDailyLimitReached ?t" "videoModeRadio_checked ?t"
    using c that by (simp add: consistent_def)
  show ?thesis
    using analyze_daily [of e] handleGenerateClick_sets_flag [of s env0 e]
      run_flag [of ?s evs'] blocked
    by auto
qed

theorem daily_limit_blocks_video_witness:
  "str_includes (stringified daily_limit_error) ''limited free generations per day''
   \<and> analyzeApiError daily_limit_error = VIDEO_DAILY_LIMIT
   \<and> \<not> isGenerating video_page \<and> \<not> promptIsEmpty video_page \<and> ai video_page \<noteq> None
   \<and> thrown (generate limit_env (beginGeneration video_page)) = Some daily_limit_error
   \<and> isVideoDailyLimitReached (handleGenerateClick limit_env video_page)
   \<and> isVideoDailyLimitReached
       (session keyed_page (Inr ()) [PromptInput ''a horse'', ModeChange True, GenerateClick limit_env])
   \<and> videoModeRadio_checked
       (run [ModeChange False, ModeChange True]
          (session keyed_page (Inr ()) [PromptInput ''a horse'', ModeChange True, GenerateClick limit_env]))
   \<and> step (GenerateClick calm_env)
       (run [ModeChange False, ModeChange True]
          (session keyed_page (Inr ()) [PromptInput ''a horse'', ModeChange True, GenerateClick limit_env]))
       = run [ModeChange False, ModeChange True]
          (session keyed_page (Inr ()) [PromptInput ''a horse'', ModeChange True, GenerateClick limit_env])"
proof -
  let ?evs = "[PromptInput ''a horse'', ModeChange True, GenerateClick limit_env]"
  have p: "str_includes (stringified daily_limit_error) ''limited free generations per day''"
    by code_simp
  have a: "ai video_page \<noteq> None"
    by (simp add: video_page_facts)
  have t: "thrown (generate limit_env (beginGeneration video_page)) = Some daily_limit_error"
    by code_simp
  have f: "isVideoDailyLimitReached (session keyed_page (Inr ()) ?evs)"
    by code_simp
  have v: "videoModeRadio_checked (run [ModeChange False, ModeChange True] (session keyed_page (Inr ()) ?evs))"
    by code_simp
  show ?thesis
    using p a t f v video_page_facts(1,2)
      daily_limit_blocks_video [of daily_limit_error video_page limit_env keyed_page "Inr ()" ?evs
        "[ModeChange False, ModeChange True]" calm_env]
    by simp
qed


end
